theory Spec2Isabelle
  imports Main
begin

section \<open>The steps of the generator (utils/step.py)\<close>

subsection \<open>Data\<close>

text \<open>
  Modelled from the spec: the module \<^verbatim>\<open>utils/placeholders.py\<close> is not among the
  sources; section 3 of the specification enumerates the placeholder keys. The step
  functions name seven of them (\<^verbatim>\<open>p.DEVICE_SUPPORT_MODULE_NAME\<close>, \<^verbatim>\<open>p.GITHUB_REPO_NAME\<close>,
  \<^verbatim>\<open>p.SUPPORT_MASTER_PATH\<close>, \<^verbatim>\<open>p.DEVICE_COUNT\<close>, \<^verbatim>\<open>p.INDEX\<close>, \<^verbatim>\<open>p.IOC_NAME\<close>,
  \<^verbatim>\<open>p.IOC_PATH\<close>); the keys are pairwise different symbols.
\<close>

datatype placeholder =
    IOC_NAME | DEVICE_NAME | TICKET | DEVICE_COUNT
  | DEVICE_SUPPORT_MODULE_NAME | GITHUB_REPO_NAME
  | SUPPORT_MASTER_PATH | IOC_PATH | INDEX

text \<open>A value stored under a placeholder key is a Python \<^verbatim>\<open>str\<close> or \<^verbatim>\<open>int\<close>.\<close>

datatype pval = PStr string | PInt int

text \<open>
  Modelled from the spec: the class \<^verbatim>\<open>DeviceInfo\<close> (\<^verbatim>\<open>utils/device_info.py\<close>) is not
  among the sources; section 3 describes it as a mapping from placeholder key to value,
  read with \<^verbatim>\<open>device[key]\<close> and written with \<^verbatim>\<open>device[key] = value\<close>.
\<close>

type_synonym device_info = "placeholder \<rightharpoonup> pval"

text \<open>
  Python passes objects by reference. A variable of type \<^verbatim>\<open>DeviceInfo\<close> holds an address;
  the object store maps addresses to the records they denote.
\<close>

type_synonym ref = nat

text \<open>
  The path constants of \<^verbatim>\<open>ibex_device_generator.paths\<close> that step.py imports. The model
  records which constant is passed, not the directory it names.
\<close>

datatype root = EPICS | EPICS_SUPPORT | IOC_ROOT | CLIENT_SRC

text \<open>
  Results of the two collaborators whose value the steps pass on: the handle returned by
  \<^verbatim>\<open>get_template(tag)\<close> and the URL returned by \<^verbatim>\<open>github_repo_url(name)\<close>. Both are opaque
  to step.py; each is represented by the argument it was obtained from.
\<close>

datatype template = Template string

datatype url = RepoUrl pval

text \<open>
  Every function that step.py calls is imported from a module outside the sources
  (git, the build tool, the template populator, the build-list editor, the GUI registry).
  A call to one of them is recorded with its arguments; a \<^verbatim>\<open>DeviceInfo\<close> argument is
  recorded as the mapping it holds at the moment of the call.
\<close>

datatype call =
    RepoWrapperInit root
  | GithubRepoUrl pval
  | RepoCreateSubmodule root pval url pval
  | GetTemplate string
  | PopulateTemplateDir template root device_info
  | AddToMakefileList root string pval
  | RunCommand "string list" pval
  | AddDeviceOpiToOpiInfo device_info

text \<open>
  Exceptions a step can end with: a missing key (\<^verbatim>\<open>device[k]\<close>), a non-integer device
  count in \<^verbatim>\<open>device[p.DEVICE_COUNT] + 1\<close>, or whatever a collaborator raised.
\<close>

datatype exn = KeyError placeholder | TypeError | Raised call

record world =
  heap :: "ref \<Rightarrow> device_info"
  calls :: "call list"

text \<open>
  Whether a collaborator raises is outside step.py. It is a parameter of the model: a
  predicate on the calls made so far and the call being made.
\<close>

type_synonym failures = "call list \<Rightarrow> call \<Rightarrow> bool"

type_synonym 'a prog = "world \<Rightarrow> (exn + 'a) \<times> world"

subsection \<open>Sequencing, the object store, the collaborators\<close>

text \<open>Statement sequencing: an exception ends the function, the world keeps its effects.\<close>

definition bind_prog :: "'a prog \<Rightarrow> ('a \<Rightarrow> 'b prog) \<Rightarrow> 'b prog" where
  "bind_prog m f w = (case m w of (Inl e, w') \<Rightarrow> (Inl e, w') | (Inr a, w') \<Rightarrow> f a w')"

definition return_prog :: "'a \<Rightarrow> 'a prog" where
  "return_prog a w = (Inr a, w)"

text \<open>\<^verbatim>\<open>device[key]\<close>\<close>

definition getitem :: "ref \<Rightarrow> placeholder \<Rightarrow> pval prog" where
  "getitem device k w =
     (case heap w device k of None \<Rightarrow> (Inl (KeyError k), w) | Some v \<Rightarrow> (Inr v, w))"

text \<open>\<^verbatim>\<open>device[key] = value\<close>: the object at the address is updated in place.\<close>

definition setitem :: "ref \<Rightarrow> placeholder \<Rightarrow> pval \<Rightarrow> unit prog" where
  "setitem device k v w = (Inr (), w\<lparr>heap := (heap w)(device := (heap w device)(k \<mapsto> v))\<rparr>)"

text \<open>A call to a collaborator: it is recorded, then it raises or returns.\<close>

definition external :: "failures \<Rightarrow> call \<Rightarrow> 'a \<Rightarrow> 'a prog" where
  "external ext c ret w =
     (if ext (calls w) c then Inl (Raised c) else Inr ret, w\<lparr>calls := calls w @ [c]\<rparr>)"

text \<open>
  Modelled from the spec: the collaborators below are imported by step.py from modules
  that are not among the sources. Sections 4.2 to 4.4 and 6 of the specification give
  their interfaces; none of them writes to the \<^verbatim>\<open>DeviceInfo\<close> it is handed (section 4.3:
  the populator's side effects are filesystem writes only).
\<close>

definition RepoWrapper :: "failures \<Rightarrow> root \<Rightarrow> root prog" where
  "RepoWrapper ext path = external ext (RepoWrapperInit path) path"

definition repo_create_submodule :: "failures \<Rightarrow> root \<Rightarrow> pval \<Rightarrow> url \<Rightarrow> pval \<Rightarrow> unit prog" where
  "repo_create_submodule ext repo name u path = external ext (RepoCreateSubmodule repo name u path) ()"

definition github_repo_url :: "failures \<Rightarrow> pval \<Rightarrow> url prog" where
  "github_repo_url ext name = external ext (GithubRepoUrl name) (RepoUrl name)"

definition get_template :: "failures \<Rightarrow> string \<Rightarrow> template prog" where
  "get_template ext tag = external ext (GetTemplate tag) (Template tag)"

definition populate_template_dir :: "failures \<Rightarrow> template \<Rightarrow> root \<Rightarrow> ref \<Rightarrow> unit prog" where
  "populate_template_dir ext t target device w =
     external ext (PopulateTemplateDir t target (heap w device)) () w"

definition add_to_makefile_list :: "failures \<Rightarrow> root \<Rightarrow> string \<Rightarrow> pval \<Rightarrow> unit prog" where
  "add_to_makefile_list ext file var entry = external ext (AddToMakefileList file var entry) ()"

definition run_command :: "failures \<Rightarrow> string list \<Rightarrow> pval \<Rightarrow> unit prog" where
  "run_command ext argv cwd = external ext (RunCommand argv cwd) ()"

definition add_device_opi_to_opi_info :: "failures \<Rightarrow> ref \<Rightarrow> unit prog" where
  "add_device_opi_to_opi_info ext device w =
     external ext (AddDeviceOpiToOpiInfo (heap w device)) () w"

subsection \<open>Python built-ins used by the IOC step\<close>

text \<open>The decimal digits of a natural number, most significant first.\<close>

definition digit_char :: "nat \<Rightarrow> char" where
  "digit_char n = ''0123456789'' ! (n mod 10)"

function dec_nat :: "nat \<Rightarrow> string" where
  "dec_nat n = (if n < 10 then [digit_char n] else dec_nat (n div 10) @ [digit_char n])"
  by pat_completeness auto
termination
  by (relation "measure (\<lambda>n. n)") auto

declare dec_nat.simps [simp del]

text \<open>
  \<^verbatim>\<open>"{:02d}".format(i)\<close>: the decimal representation, zero-padded after the sign to a
  total width of at least two characters.
\<close>

definition format_02d :: "int \<Rightarrow> string" where
  "format_02d i =
     (if i < 0 then CHR ''-'' # dec_nat (nat (- i))
      else if i < 10 then CHR ''0'' # dec_nat (nat i)
      else dec_nat (nat i))"

text \<open>\<^verbatim>\<open>device[p.DEVICE_COUNT] + 1\<close>: adding an int to a \<^verbatim>\<open>str\<close> raises \<^verbatim>\<open>TypeError\<close>.\<close>

definition plus_one :: "pval \<Rightarrow> int prog" where
  "plus_one v w = (case v of PInt n \<Rightarrow> (Inr (n + 1), w) | PStr s \<Rightarrow> (Inl TypeError, w))"

text \<open>\<^verbatim>\<open>range(a, b)\<close> holds the integers from \<open>a\<close> to \<open>b - 1\<close>.\<close>

definition py_range :: "int \<Rightarrow> int \<Rightarrow> int list" where
  "py_range a b = [a..b - 1]"

subsection \<open>The zero-padded index, read from its digits\<close>

text \<open>
  The specification words the index as the number of the app, zero-padded to two digits.
  The reading below does not use the formatter: a string is the zero-padded decimal of
  \<open>i\<close> when it consists of decimal digits, denotes \<open>i\<close>, and has two characters,
  or more than two and then no leading zero (the format gives a minimum width, so a
  number of three digits is written as it is).
\<close>

definition is_digit :: "char \<Rightarrow> bool" where
  "is_digit c = (c \<in> set ''0123456789'')"

definition digit_of :: "char \<Rightarrow> nat" where
  "digit_of c = length (takeWhile (\<lambda>d. d \<noteq> c) ''0123456789'')"

definition decimal_value :: "string \<Rightarrow> nat" where
  "decimal_value s = foldl (\<lambda>acc c. 10 * acc + digit_of c) 0 s"

definition zero_padded_decimal :: "int \<Rightarrow> string \<Rightarrow> bool" where
  "zero_padded_decimal i s =
     (list_all is_digit s \<and> int (decimal_value s) = i \<and>
      (length s = 2 \<or> (2 < length s \<and> hd s \<noteq> CHR ''0'')))"

subsection \<open>The six step functions\<close>

definition create_submodule :: "failures \<Rightarrow> ref \<Rightarrow> unit prog" where
  "create_submodule ext device =
     bind_prog (RepoWrapper ext EPICS) (\<lambda>epics_repo.
     bind_prog (getitem device DEVICE_SUPPORT_MODULE_NAME) (\<lambda>name.
     bind_prog (getitem device GITHUB_REPO_NAME) (\<lambda>repo_name.
     bind_prog (github_repo_url ext repo_name) (\<lambda>u.
     bind_prog (getitem device SUPPORT_MASTER_PATH) (\<lambda>path.
     bind_prog (repo_create_submodule ext epics_repo name u path) (\<lambda>_.
     bind_prog (get_template ext ''3'') (\<lambda>t.
     bind_prog (populate_template_dir ext t EPICS device) (\<lambda>_.
     bind_prog (getitem device DEVICE_SUPPORT_MODULE_NAME) (\<lambda>entry.
     add_to_makefile_list ext EPICS_SUPPORT ''SUPPDIRS'' entry)))))))))"

definition create_submodule_structure :: "failures \<Rightarrow> ref \<Rightarrow> unit prog" where
  "create_submodule_structure ext device =
     bind_prog (get_template ext ''4'') (\<lambda>t.
     bind_prog (populate_template_dir ext t EPICS device) (\<lambda>_.
     bind_prog (getitem device SUPPORT_MASTER_PATH) (\<lambda>cwd.
     run_command ext [''make''] cwd)))"

text \<open>
  The body of \<^verbatim>\<open>for i in range(...)\<close> in \<^verbatim>\<open>create_ioc_from_template\<close>, run over the
  values the range holds. \<^verbatim>\<open>subs = device\<close> copies the address, so \<open>subs\<close> and
  \<open>device\<close> denote the same object.
\<close>

fun ioc_loop :: "failures \<Rightarrow> ref \<Rightarrow> int list \<Rightarrow> unit prog" where
  "ioc_loop ext device [] = return_prog ()"
| "ioc_loop ext device (i # rest) =
     (let subs = device in
      bind_prog (setitem subs INDEX (PStr (format_02d i))) (\<lambda>_.
      bind_prog (get_template ext ''5_2'') (\<lambda>t.
      bind_prog (populate_template_dir ext t EPICS subs) (\<lambda>_.
      ioc_loop ext device rest))))"

definition create_ioc_from_template :: "failures \<Rightarrow> ref \<Rightarrow> unit prog" where
  "create_ioc_from_template ext device =
     bind_prog (get_template ext ''5_1'') (\<lambda>t.
     bind_prog (populate_template_dir ext t EPICS device) (\<lambda>_.
     bind_prog (getitem device DEVICE_COUNT) (\<lambda>count.
     bind_prog (plus_one count) (\<lambda>stop.
     bind_prog (ioc_loop ext device (py_range 2 stop)) (\<lambda>_.
     bind_prog (getitem device IOC_NAME) (\<lambda>entry.
     bind_prog (add_to_makefile_list ext IOC_ROOT ''IOCDIRS'' entry) (\<lambda>_.
     bind_prog (getitem device IOC_PATH) (\<lambda>cwd.
     run_command ext [''make''] cwd))))))))"

definition add_test_framework :: "failures \<Rightarrow> ref \<Rightarrow> unit prog" where
  "add_test_framework ext device =
     bind_prog (get_template ext ''6'') (\<lambda>t.
     populate_template_dir ext t EPICS device)"

definition add_lewis_emulator :: "failures \<Rightarrow> ref \<Rightarrow> unit prog" where
  "add_lewis_emulator ext device =
     bind_prog (get_template ext ''7'') (\<lambda>t.
     populate_template_dir ext t EPICS device)"

definition add_opi_to_gui :: "failures \<Rightarrow> ref \<Rightarrow> unit prog" where
  "add_opi_to_gui ext device =
     bind_prog (get_template ext ''8'') (\<lambda>t.
     bind_prog (populate_template_dir ext t CLIENT_SRC device) (\<lambda>_.
     add_device_opi_to_opi_info ext device))"

subsection \<open>Observing a run\<close>

text \<open>The calls a program adds to the record when it is run from the world \<open>w\<close>.\<close>

definition emitted :: "'a prog \<Rightarrow> world \<Rightarrow> call list" where
  "emitted p w = drop (length (calls w)) (calls (snd (p w)))"

text \<open>The template populations among some calls, in order: template, target root, and the
  placeholder mapping the populator was handed.\<close>

fun populations :: "call list \<Rightarrow> (template \<times> root \<times> device_info) list" where
  "populations [] = []"
| "populations (PopulateTemplateDir t target d # cs) = (t, target, d) # populations cs"
| "populations (c # cs) = populations cs"

text \<open>The tags requested from \<^verbatim>\<open>get_template\<close>, in order.\<close>

fun requested_tags :: "call list \<Rightarrow> string list" where
  "requested_tags [] = []"
| "requested_tags (GetTemplate tag # cs) = tag # requested_tags cs"
| "requested_tags (c # cs) = requested_tags cs"

text \<open>The build-list edits: build file, list variable, entry.\<close>

fun makefile_edits :: "call list \<Rightarrow> (root \<times> string \<times> pval) list" where
  "makefile_edits [] = []"
| "makefile_edits (AddToMakefileList file var entry # cs) = (file, var, entry) # makefile_edits cs"
| "makefile_edits (c # cs) = makefile_edits cs"

text \<open>
  An external-tool invocation is a run of the build tool (\<^verbatim>\<open>run_command\<close>) or a version
  control operation (\<^verbatim>\<open>RepoWrapper.create_submodule\<close>), the two tool interfaces that
  section 6 of the specification lists.
\<close>

fun is_tool_invocation :: "call \<Rightarrow> bool" where
  "is_tool_invocation (RunCommand argv cwd) = True"
| "is_tool_invocation (RepoCreateSubmodule repo name u path) = True"
| "is_tool_invocation c = False"

text \<open>The calls that follow the first \<^verbatim>\<open>run_command\<close>.\<close>

fun calls_after_make :: "call list \<Rightarrow> call list" where
  "calls_after_make [] = []"
| "calls_after_make (RunCommand argv cwd # cs) = cs"
| "calls_after_make (c # cs) = calls_after_make cs"

text \<open>
  The calls of a completed run of \<^verbatim>\<open>create_ioc_from_template\<close>, in three parts: the
  primary app, the loop iterations for the values \<open>js\<close>, and the build-list edit with
  the build. \<open>d\<close> is the placeholder mapping on entry.
\<close>

definition ioc_head :: "device_info \<Rightarrow> call list" where
  "ioc_head d = [GetTemplate ''5_1'', PopulateTemplateDir (Template ''5_1'') EPICS d]"

definition loop_calls :: "device_info \<Rightarrow> int list \<Rightarrow> call list" where
  "loop_calls d js = concat (map (\<lambda>i. [GetTemplate ''5_2'',
       PopulateTemplateDir (Template ''5_2'') EPICS (d(INDEX \<mapsto> PStr (format_02d i)))]) js)"

definition ioc_tail :: "pval \<Rightarrow> pval \<Rightarrow> call list" where
  "ioc_tail entry cwd = [AddToMakefileList IOC_ROOT ''IOCDIRS'' entry, RunCommand [''make''] cwd]"

text \<open>The calls a loop iteration can make.\<close>

definition loop_call :: "call \<Rightarrow> bool" where
  "loop_call c = (case c of GetTemplate tag \<Rightarrow> tag = ''5_2''
      | PopulateTemplateDir t target d \<Rightarrow> t = Template ''5_2'' \<and> target = EPICS
      | _ \<Rightarrow> False)"

subsection \<open>A concrete device\<close>

text \<open>Collaborators that never raise, and a device record with three duplicate IOCs.\<close>

definition never_fails :: failures where
  "never_fails h c = False"

definition demo_device :: device_info where
  "demo_device = [DEVICE_COUNT \<mapsto> PInt 3, IOC_NAME \<mapsto> PStr ''CHOPPER'',
     IOC_PATH \<mapsto> PStr ''ioc/CHOPPER'', DEVICE_SUPPORT_MODULE_NAME \<mapsto> PStr ''chopper'',
     GITHUB_REPO_NAME \<mapsto> PStr ''EPICS-chopper'', SUPPORT_MASTER_PATH \<mapsto> PStr ''support/chopper'']"

definition demo_world :: world where
  "demo_world = \<lparr>heap = (\<lambda>r. Map.empty)(0 := demo_device), calls = []\<rparr>"

text \<open>The same device with twelve duplicate IOCs.\<close>

definition demo_world_12 :: world where
  "demo_world_12 = \<lparr>heap = (\<lambda>r. Map.empty)(0 := demo_device(DEVICE_COUNT \<mapsto> PInt 12)), calls = []\<rparr>"

section \<open>Command line arguments (utils/arg\_parser.py)\<close>

subsection \<open>The input checkers\<close>

text \<open>
  The validators that arg\_parser.py imports from \<^verbatim>\<open>utils/device_info.py\<close> and
  \<^verbatim>\<open>utils/github.py\<close> are not among the sources. They are parameters of the model, as is
  Python's built-in \<^verbatim>\<open>int\<close> on strings (\<open>None\<close> where it raises \<^verbatim>\<open>ValueError\<close>).
\<close>

record helpers =
  is_valid_ioc_name :: "string \<Rightarrow> bool"
  is_valid_device_name :: "string \<Rightarrow> bool"
  is_valid_device_count :: "int \<Rightarrow> bool"
  does_github_issue_exist_and_is_open :: "int \<Rightarrow> bool"
  int_of_str :: "string \<Rightarrow> int option"

text \<open>
  The text of an \<^verbatim>\<open>ArgumentTypeError\<close>: the string form of one of the exceptions of
  \<^verbatim>\<open>ibex_device_generator.exc\<close> (not among the sources), or the f-string of
  \<^verbatim>\<open>ticket_number_checker\<close>. It is kept as the exception class and its argument.
\<close>

datatype message =
    InvalidIOCNameError string
  | InvalidDeviceNameError string
  | InvalidDeviceCountError int
  | IssueClosedOrMissing int

datatype checker_exn = ArgumentTypeError message | ValueError

definition ioc_name_checker :: "helpers \<Rightarrow> string \<Rightarrow> checker_exn + string" where
  "ioc_name_checker H ioc_name =
     (if \<not> is_valid_ioc_name H ioc_name
      then Inl (ArgumentTypeError (InvalidIOCNameError ioc_name))
      else Inr ioc_name)"

definition device_name_checker :: "helpers \<Rightarrow> string \<Rightarrow> checker_exn + string" where
  "device_name_checker H device_name =
     (if \<not> is_valid_device_name H device_name
      then Inl (ArgumentTypeError (InvalidDeviceNameError device_name))
      else Inr device_name)"

definition device_count_checker :: "helpers \<Rightarrow> string \<Rightarrow> checker_exn + int" where
  "device_count_checker H val =
     (case int_of_str H val of
        None \<Rightarrow> Inl ValueError
      | Some count \<Rightarrow>
          if \<not> is_valid_device_count H count
          then Inl (ArgumentTypeError (InvalidDeviceCountError count))
          else Inr count)"

definition ticket_number_checker :: "helpers \<Rightarrow> string \<Rightarrow> checker_exn + int" where
  "ticket_number_checker H val =
     (case int_of_str H val of
        None \<Rightarrow> Inl ValueError
      | Some ticket_number \<Rightarrow>
          if \<not> does_github_issue_exist_and_is_open H ticket_number
          then Inl (ArgumentTypeError (IssueClosedOrMissing ticket_number))
          else Inr ticket_number)"

subsection \<open>The argparse library, as far as \<^verbatim>\<open>parse_arguments\<close> uses it\<close>

text \<open>What an attribute of the \<^verbatim>\<open>Namespace\<close> holds.\<close>

datatype arg_value = VNone | VStr string | VInt int | VBool bool

datatype action = store | store_true

text \<open>
  One \<^verbatim>\<open>add_argument\<close> call: the names or flags, and the keywords \<^verbatim>\<open>action\<close>,
  \<^verbatim>\<open>type\<close>, \<^verbatim>\<open>choices\<close> and \<^verbatim>\<open>default\<close> (argparse's own defaults where the call
  gives none). Help texts are left out.
\<close>

record argument =
  name_or_flags :: "string list"
  action :: action
  type :: "(string \<Rightarrow> checker_exn + arg_value) option"
  choices :: "arg_value list option"
  default :: arg_value

text \<open>
  The command line, after argparse has split it: the argument string received by each
  storing argument that occurs (by destination), and the flags that occur. How argparse
  splits \<^verbatim>\<open>sys.argv\<close> (abbreviated options, \<^verbatim>\<open>--opt=value\<close>, repeated options) is library
  behaviour outside this model.
\<close>

record command_line =
  given :: "(string \<times> string) list"
  switches :: "string list"

datatype parse_error =
    ArgumentError string checker_exn
  | InvalidChoice string arg_value
  | Required string
  | AttributeError string

type_synonym namespace = "string \<rightharpoonup> arg_value"

text \<open>An argument is optional when its first name starts with a dash.\<close>

definition is_optional :: "argument \<Rightarrow> bool" where
  "is_optional a = (case name_or_flags a of [] \<Rightarrow> False | f # fs \<Rightarrow> take 1 f = ''-'')"

text \<open>
  The destination: the first long option without its dashes, else the first name without
  its dashes; inner dashes become underscores.
\<close>

definition strip_dashes :: "string \<Rightarrow> string" where
  "strip_dashes f = map (\<lambda>c. if c = CHR ''-'' then CHR ''_'' else c) (dropWhile (\<lambda>c. c = CHR ''-'') f)"

definition dest_of :: "argument \<Rightarrow> string" where
  "dest_of a =
     (case filter (\<lambda>f. take 2 f = ''--'') (name_or_flags a) of
        f # fs \<Rightarrow> strip_dashes f
      | [] \<Rightarrow> (case name_or_flags a of [] \<Rightarrow> [] | f # fs \<Rightarrow> strip_dashes f))"

text \<open>The type function is applied to the argument string; what it raises is a parse error.\<close>

definition get_value :: "argument \<Rightarrow> string \<Rightarrow> parse_error + arg_value" where
  "get_value a s =
     (case type a of
        None \<Rightarrow> Inr (VStr s)
      | Some f \<Rightarrow> (case f s of Inl e \<Rightarrow> Inl (ArgumentError (dest_of a) e) | Inr v \<Rightarrow> Inr v))"

text \<open>The converted value must be one of the choices, when choices are given.\<close>

definition check_value :: "argument \<Rightarrow> arg_value \<Rightarrow> parse_error + arg_value" where
  "check_value a v =
     (case choices a of
        None \<Rightarrow> Inr v
      | Some cs \<Rightarrow> if v \<in> set cs then Inr v else Inl (InvalidChoice (dest_of a) v))"

text \<open>
  An argument that does not occur takes its default; a default that is a string goes
  through the type function first, and is not checked against the choices.
\<close>

definition default_value :: "argument \<Rightarrow> parse_error + arg_value" where
  "default_value a = (case default a of VStr s \<Rightarrow> get_value a s | v \<Rightarrow> Inr v)"

definition parse_argument :: "command_line \<Rightarrow> argument \<Rightarrow> parse_error + arg_value" where
  "parse_argument cl a =
     (case action a of
        store_true \<Rightarrow> Inr (VBool (dest_of a \<in> set (switches cl)))
      | store \<Rightarrow>
          (case map_of (given cl) (dest_of a) of
             Some s \<Rightarrow> (case get_value a s of Inl e \<Rightarrow> Inl e | Inr v \<Rightarrow> check_value a v)
           | None \<Rightarrow> if is_optional a then default_value a else Inl (Required (dest_of a))))"

fun parse_args :: "argument list \<Rightarrow> command_line \<Rightarrow> parse_error + namespace" where
  "parse_args [] cl = Inr Map.empty"
| "parse_args (a # rest) cl =
     (case parse_argument cl a of
        Inl e \<Rightarrow> Inl e
      | Inr v \<Rightarrow>
          (case parse_args rest cl of
             Inl e \<Rightarrow> Inl e
           | Inr ns \<Rightarrow> Inr (ns(dest_of a \<mapsto> v))))"

text \<open>Python's truth value of an attribute, as \<^verbatim>\<open>not args.device_name\<close> takes it.\<close>

definition truthy :: "arg_value \<Rightarrow> bool" where
  "truthy v = (case v of VNone \<Rightarrow> False | VStr s \<Rightarrow> s \<noteq> [] | VInt i \<Rightarrow> i \<noteq> 0 | VBool b \<Rightarrow> b)"

subsection \<open>\<^verbatim>\<open>parse_arguments\<close>\<close>

text \<open>\<^verbatim>\<open>type=str\<close>, and the checkers as type functions.\<close>

definition str :: "string \<Rightarrow> checker_exn + arg_value" where
  "str s = Inr (VStr s)"

definition returning_str :: "(string \<Rightarrow> checker_exn + string) \<Rightarrow> string \<Rightarrow> checker_exn + arg_value" where
  "returning_str f s = (case f s of Inl e \<Rightarrow> Inl e | Inr v \<Rightarrow> Inr (VStr v))"

definition returning_int :: "(string \<Rightarrow> checker_exn + int) \<Rightarrow> string \<Rightarrow> checker_exn + arg_value" where
  "returning_int f s = (case f s of Inl e \<Rightarrow> Inl e | Inr v \<Rightarrow> Inr (VInt v))"

text \<open>
  Modelled from the spec: \<^verbatim>\<open>DeviceInfo.default_device_count\<close> is declared in
  \<^verbatim>\<open>utils/device_info.py\<close>, which is not among the sources; sections 3 and 6 of the
  specification give the default device count as 1.
\<close>

definition default_device_count :: int where
  "default_device_count = 1"

text \<open>The eight \<^verbatim>\<open>add_argument\<close> calls, in order.\<close>

definition parser :: "helpers \<Rightarrow> argument list" where
  "parser H =
    [\<lparr>name_or_flags = [''ioc_name''], action = store,
       type = Some (returning_str (ioc_name_checker H)), choices = None, default = VNone\<rparr>,
     \<lparr>name_or_flags = [''ticket''], action = store,
       type = Some (returning_int (ticket_number_checker H)), choices = None, default = VNone\<rparr>,
     \<lparr>name_or_flags = [''--device_name''], action = store,
       type = Some (returning_str (device_name_checker H)), choices = None, default = VNone\<rparr>,
     \<lparr>name_or_flags = [''--device_count''], action = store,
       type = Some (returning_int (device_count_checker H)), choices = None,
       default = VInt default_device_count\<rparr>,
     \<lparr>name_or_flags = [''--use_git''], action = store_true,
       type = None, choices = None, default = VBool False\<rparr>,
     \<lparr>name_or_flags = [''--github_token''], action = store,
       type = Some str, choices = None, default = VNone\<rparr>,
     \<lparr>name_or_flags = [''--log_level''], action = store,
       type = Some str,
       choices = Some [VStr ''DEBUG'', VStr ''INFO'', VStr ''WARN'', VStr ''ERROR''],
       default = VStr ''INFO''\<rparr>,
     \<lparr>name_or_flags = [''-i'', ''--interactive''], action = store_true,
       type = None, choices = None, default = VBool False\<rparr>]"

text \<open>
  \<^verbatim>\<open>args = parser.parse_args()\<close>, then the device name falls back to the IOC name. A
  parse error ends the program (argparse prints the message and exits with status 2).
\<close>

definition parse_arguments :: "helpers \<Rightarrow> command_line \<Rightarrow> parse_error + namespace" where
  "parse_arguments H cl =
     (case parse_args (parser H) cl of
        Inl e \<Rightarrow> Inl e
      | Inr args \<Rightarrow>
          (case args ''device_name'' of
             None \<Rightarrow> Inl (AttributeError ''device_name'')
           | Some device_name \<Rightarrow>
               if \<not> truthy device_name
               then (case args ''ioc_name'' of
                       None \<Rightarrow> Inl (AttributeError ''ioc_name'')
                     | Some ioc_name \<Rightarrow> Inr (args(''device_name'' \<mapsto> ioc_name)))
               else Inr args))"

subsection \<open>A concrete command line\<close>

text \<open>
  Validators for the examples: names are valid when non-empty and made of capital
  letters, counts when positive, ticket 1234 is open, and \<^verbatim>\<open>int\<close> reads the few numerals
  the examples use.
\<close>

definition demo_helpers :: helpers where
  "demo_helpers = \<lparr>
     is_valid_ioc_name = (\<lambda>s. s \<noteq> [] \<and> list_all (\<lambda>c. c \<in> set ''ABCDEFGHIJKLMNOPQRSTUVWXYZ'') s),
     is_valid_device_name = (\<lambda>s. s \<noteq> [] \<and> list_all (\<lambda>c. c \<in> set ''ABCDEFGHIJKLMNOPQRSTUVWXYZ'') s),
     is_valid_device_count = (\<lambda>n. 1 \<le> n),
     does_github_issue_exist_and_is_open = (\<lambda>n. n = 1234),
     int_of_str = map_of [(''0'', 0), (''1'', 1), (''2'', 2), (''3'', 3), (''1234'', 1234), (''99'', 99)]\<rparr>"

definition demo_command_line :: command_line where
  "demo_command_line = \<lparr>given = [(''ioc_name'', ''CHOPPER''), (''ticket'', ''1234'')], switches = []\<rparr>"

text \<open>Two command lines that must be rejected: a device count of 0, and a log level that
  is not among the choices.\<close>

definition demo_bad_count :: command_line where
  "demo_bad_count = \<lparr>given = [(''ioc_name'', ''CHOPPER''), (''ticket'', ''1234''),
     (''device_count'', ''0'')], switches = []\<rparr>"


section \<open>Properties of the step functions\<close>

subsection \<open>Observations and appended calls\<close>

lemmas prog_defs = bind_prog_def return_prog_def getitem_def setitem_def external_def
  RepoWrapper_def repo_create_submodule_def github_repo_url_def get_template_def
  populate_template_dir_def add_to_makefile_list_def run_command_def
  add_device_opi_to_opi_info_def plus_one_def

lemma populations_append: "populations (xs @ ys) = populations xs @ populations ys"
  by (induction xs rule: populations.induct) simp_all

lemma requested_tags_append: "requested_tags (xs @ ys) = requested_tags xs @ requested_tags ys"
  by (induction xs rule: requested_tags.induct) simp_all

lemma makefile_edits_append: "makefile_edits (xs @ ys) = makefile_edits xs @ makefile_edits ys"
  by (induction xs rule: makefile_edits.induct) simp_all

text \<open>Sequencing without naming the intermediate world.\<close>

lemma bind_prog_alt:
  "bind_prog m f w = (case fst (m w) of Inl e \<Rightarrow> (Inl e, snd (m w)) | Inr a \<Rightarrow> f a (snd (m w)))"
  by (simp add: bind_prog_def split: prod.splits sum.splits)

subsection \<open>Decimal formatting\<close>

lemma length_dec_nat_digit: "n < 10 \<Longrightarrow> length (dec_nat n) = 1"
  by (simp add: dec_nat.simps)

lemma length_dec_nat_two: "10 \<le> n \<Longrightarrow> n < 100 \<Longrightarrow> length (dec_nat n) = 2"
  by (subst dec_nat.simps) (simp add: length_dec_nat_digit)

text \<open>Up to 99 the formatted index has exactly two characters.\<close>

lemma length_format_02d: "0 \<le> i \<Longrightarrow> i < 100 \<Longrightarrow> length (format_02d i) = 2"
  by (simp add: format_02d_def length_dec_nat_digit length_dec_nat_two)

text \<open>The formatter writes the zero-padded decimal, and no other string is one.\<close>

lemma below_ten: "k < 10 \<Longrightarrow> k = 0 \<or> k = 1 \<or> k = 2 \<or> k = 3 \<or> k = 4 \<or> k = 5 \<or> k = 6 \<or> k = 7 \<or> k = 8 \<or> k = (9::nat)"
  by arith

lemma digit_char_digit: "is_digit (digit_char n) \<and> digit_of (digit_char n) = n mod 10"
proof -
  have "n mod 10 < 10" by simp
  from below_ten [OF this] show ?thesis
    by (elim disjE) (simp_all add: digit_char_def is_digit_def digit_of_def)
qed

lemma digit_char_zero: "digit_char n = CHR ''0'' \<longleftrightarrow> n mod 10 = 0"
proof -
  have "n mod 10 < 10" by simp
  from below_ten [OF this] show ?thesis
    by (elim disjE) (simp_all add: digit_char_def)
qed

lemma dec_nat_nonempty: "dec_nat n \<noteq> []"
  by (subst dec_nat.simps) simp

lemma dec_nat_digits: "list_all is_digit (dec_nat n)"
proof (induction n rule: dec_nat.induct)
  case (1 n)
  show ?case
  proof (cases "n < 10")
    case True
    then show ?thesis
      by (subst dec_nat.simps) (simp add: digit_char_digit)
  next
    case False
    with "1" show ?thesis
      by (subst dec_nat.simps) (simp add: digit_char_digit)
  qed
qed

lemma dec_nat_value: "decimal_value (dec_nat n) = n"
proof (induction n rule: dec_nat.induct)
  case (1 n)
  show ?case
  proof (cases "n < 10")
    case True
    then show ?thesis
      by (subst dec_nat.simps) (simp add: decimal_value_def digit_char_digit)
  next
    case False
    with "1" have "decimal_value (dec_nat (n div 10)) = n div 10"
      by simp
    with False show ?thesis
      by (subst dec_nat.simps) (simp add: decimal_value_def digit_char_digit)
  qed
qed

lemma dec_nat_hd: "0 < n \<Longrightarrow> hd (dec_nat n) \<noteq> CHR ''0''"
proof (induction n rule: dec_nat.induct)
  case (1 n)
  show ?case
  proof (cases "n < 10")
    case True
    with "1.prems" show ?thesis
      by (subst dec_nat.simps) (simp add: digit_char_zero)
  next
    case False
    then have "0 < n div 10" by simp
    with "1.IH" False have "hd (dec_nat (n div 10)) \<noteq> CHR ''0''"
      by simp
    with False show ?thesis
      by (subst dec_nat.simps) (simp add: dec_nat_nonempty)
  qed
qed

lemma dec_nat_long: "100 \<le> n \<Longrightarrow> 2 < length (dec_nat n)"
proof -
  assume big: "100 \<le> n"
  then have "10 \<le> n div 10" by simp
  then have "1 < length (dec_nat (n div 10))"
    using dec_nat_nonempty [of "n div 10 div 10"]
    by (subst dec_nat.simps) (simp add: Suc_lessI)
  with big show ?thesis
    by (subst dec_nat.simps) simp
qed

lemma decimal_value_leading_zero: "decimal_value (CHR ''0'' # s) = decimal_value s"
  by (simp add: decimal_value_def digit_of_def)

lemma format_02d_padded: "0 \<le> i \<Longrightarrow> zero_padded_decimal i (format_02d i)"
proof -
  assume nonneg: "0 \<le> i"
  show ?thesis
  proof (cases "i < 10")
    case True
    with nonneg show ?thesis
      by (simp add: zero_padded_decimal_def format_02d_def dec_nat_digits length_dec_nat_digit
          decimal_value_leading_zero dec_nat_value is_digit_def)
  next
    case False
    note ge10 = this
    show ?thesis
    proof (cases "i < 100")
      case True
      with ge10 nonneg show ?thesis
        by (simp add: zero_padded_decimal_def format_02d_def dec_nat_digits length_dec_nat_two
            dec_nat_value)
    next
      case False
      then have "100 \<le> nat i" by simp
      from dec_nat_long [OF this] dec_nat_hd [of "nat i"] False nonneg show ?thesis
        by (simp add: zero_padded_decimal_def format_02d_def dec_nat_digits dec_nat_value)
    qed
  qed
qed


lemma decimal_value_snoc: "decimal_value (s @ [c]) = 10 * decimal_value s + digit_of c"
  by (simp add: decimal_value_def)

lemma is_digit_cases:
  "is_digit c \<Longrightarrow> c = CHR ''0'' \<or> c = CHR ''1'' \<or> c = CHR ''2'' \<or> c = CHR ''3'' \<or> c = CHR ''4'' \<or>
     c = CHR ''5'' \<or> c = CHR ''6'' \<or> c = CHR ''7'' \<or> c = CHR ''8'' \<or> c = CHR ''9''"
  by (simp add: is_digit_def)

lemma digit_of_inverse: "is_digit c \<Longrightarrow> digit_of c < 10 \<and> digit_char (digit_of c) = c"
  by (drule is_digit_cases, elim disjE) (simp_all add: digit_of_def digit_char_def)

lemma digit_of_inject: "is_digit c \<Longrightarrow> is_digit d \<Longrightarrow> digit_of c = digit_of d \<Longrightarrow> c = d"
  by (metis digit_of_inverse)

lemma digit_of_zero: "is_digit c \<Longrightarrow> digit_of c = 0 \<Longrightarrow> c = CHR ''0''"
  by (drule is_digit_cases, elim disjE) (simp_all add: digit_of_def)

lemma decimal_value_inject:
  "list_all is_digit s \<Longrightarrow> list_all is_digit t \<Longrightarrow> length s = length t \<Longrightarrow>
     decimal_value s = decimal_value t \<Longrightarrow> s = t"
proof (induction s arbitrary: t rule: rev_induct)
  case Nil
  then show ?case by simp
next
  case (snoc c s)
  from snoc.prems(3) obtain d t' where t: "t = t' @ [d]"
    by (cases t rule: rev_cases) simp_all
  from snoc.prems(1) have c: "is_digit c" "list_all is_digit s" by simp_all
  from snoc.prems(2) t have d: "is_digit d" "list_all is_digit t'" by simp_all
  from c d have small: "digit_of c < 10" "digit_of d < 10"
    by (simp_all add: digit_of_inverse)
  from snoc.prems(4) t
  have eq: "10 * decimal_value s + digit_of c = 10 * decimal_value t' + digit_of d"
    by (simp add: decimal_value_snoc)
  with small have same: "decimal_value s = decimal_value t'" "digit_of c = digit_of d"
    by arith+
  from snoc.prems(3) t have "length s = length t'" by simp
  with snoc.IH c d same have "s = t'" by blast
  moreover from c d same have "c = d" by (blast intro: digit_of_inject)
  ultimately show ?case using t by simp
qed

lemma decimal_value_less: "list_all is_digit s \<Longrightarrow> decimal_value s < 10 ^ length s"
proof (induction s rule: rev_induct)
  case Nil
  then show ?case by (simp add: decimal_value_def)
next
  case (snoc c s)
  then have "digit_of c < 10" "decimal_value s < 10 ^ length s"
    by (simp_all add: digit_of_inverse)
  then have "10 * decimal_value s + digit_of c < 10 * 10 ^ length s"
    by arith
  then show ?case by (simp add: decimal_value_snoc)
qed

lemma decimal_value_ge:
  "list_all is_digit s \<Longrightarrow> s \<noteq> [] \<Longrightarrow> hd s \<noteq> CHR ''0'' \<Longrightarrow> 10 ^ (length s - 1) \<le> decimal_value s"
proof (induction s rule: rev_induct)
  case Nil
  then show ?case by simp
next
  case (snoc c s)
  show ?case
  proof (cases "s = []")
    case True
    with snoc.prems have "is_digit c" "c \<noteq> CHR ''0''" by simp_all
    then have "digit_of c \<noteq> 0" using digit_of_zero [of c] by auto
    with True show ?thesis by (simp add: decimal_value_def)
  next
    case False
    with snoc have "10 ^ (length s - 1) \<le> decimal_value s" by simp
    then have "10 * 10 ^ (length s - 1) \<le> 10 * decimal_value s + digit_of c" by arith
    moreover from False have "10 * (10::nat) ^ (length s - 1) = 10 ^ length s"
      by (cases s) simp_all
    ultimately show ?thesis by (simp add: decimal_value_snoc)
  qed
qed

lemma zero_padded_decimal_unique:
  assumes s: "zero_padded_decimal i s" and t: "zero_padded_decimal i t"
  shows "s = t"
proof -
  from s t have digits: "list_all is_digit s" "list_all is_digit t"
    and val: "decimal_value s = decimal_value t"
    by (simp_all add: zero_padded_decimal_def)
  have short: "length b = 2 \<Longrightarrow> 2 < length a \<Longrightarrow> hd a \<noteq> CHR ''0'' \<Longrightarrow> list_all is_digit a \<Longrightarrow>
      list_all is_digit b \<Longrightarrow> decimal_value a \<noteq> decimal_value b" for a b
  proof -
    assume b: "length b = 2" and a: "2 < length a" "hd a \<noteq> CHR ''0''"
      and da: "list_all is_digit a" and db: "list_all is_digit b"
    from a have "a \<noteq> []" by auto
    from decimal_value_ge [OF da this a(2)] have "10 ^ (length a - 1) \<le> decimal_value a" .
    moreover from a(1) have "(10::nat) ^ 2 \<le> 10 ^ (length a - 1)"
      by (intro power_increasing) simp_all
    moreover from decimal_value_less [OF db] b have "decimal_value b < 10 ^ 2" by simp
    ultimately show ?thesis by arith
  qed
  have long: "length a < length b \<Longrightarrow> b \<noteq> [] \<Longrightarrow> hd b \<noteq> CHR ''0'' \<Longrightarrow> list_all is_digit a \<Longrightarrow>
      list_all is_digit b \<Longrightarrow> decimal_value a \<noteq> decimal_value b" for a b
  proof -
    assume lt: "length a < length b" and b: "b \<noteq> []" "hd b \<noteq> CHR ''0''"
      and da: "list_all is_digit a" and db: "list_all is_digit b"
    from decimal_value_ge [OF db b] have "10 ^ (length b - 1) \<le> decimal_value b" .
    moreover from lt have "(10::nat) ^ length a \<le> 10 ^ (length b - 1)"
      by (intro power_increasing) simp_all
    moreover from decimal_value_less [OF da] have "decimal_value a < 10 ^ length a" .
    ultimately show ?thesis by arith
  qed
  have "length s = length t"
  proof (rule ccontr)
    assume differ: "length s \<noteq> length t"
    from s t have shape:
      "length s = 2 \<or> (2 < length s \<and> hd s \<noteq> CHR ''0'')"
      "length t = 2 \<or> (2 < length t \<and> hd t \<noteq> CHR ''0'')"
      by (simp_all add: zero_padded_decimal_def)
    from differ consider "length s < length t" | "length t < length s" by arith
    then show False
    proof cases
      case 1
      with shape have "t \<noteq> []" "hd t \<noteq> CHR ''0''" by auto
      from long [OF 1 this digits] val show False by simp
    next
      case 2
      with shape have "s \<noteq> []" "hd s \<noteq> CHR ''0''" by auto
      from long [OF 2 this digits(2) digits(1)] val show False by simp
    qed
  qed
  from decimal_value_inject [OF digits this val] show ?thesis .
qed

subsection \<open>The loop of the IOC step\<close>

declare ioc_loop.simps(2) [simp del]

lemma loop_calls_Nil: "loop_calls d [] = []"
  by (simp add: loop_calls_def)

lemma loop_calls_Cons:
  "loop_calls d (i # rest) = [GetTemplate ''5_2'',
       PopulateTemplateDir (Template ''5_2'') EPICS (d(INDEX \<mapsto> PStr (format_02d i)))] @ loop_calls d rest"
  by (simp add: loop_calls_def)

text \<open>An earlier write to \<open>INDEX\<close> is overwritten by each iteration.\<close>

lemma loop_calls_upd: "loop_calls (d(INDEX \<mapsto> v)) js = loop_calls d js"
  by (simp add: loop_calls_def)

lemma list_all_loop_calls: "list_all loop_call (loop_calls d js)"
  by (induction js) (simp_all add: loop_calls_Nil loop_calls_Cons loop_call_def)

text \<open>One iteration: it ends at a raising collaborator or goes on with the rest.\<close>

lemma ioc_loop_unfold:
  "ioc_loop ext r (i # rest) w =
     (if ext (calls w) (GetTemplate ''5_2'')
      then (Inl (Raised (GetTemplate ''5_2'')),
            w\<lparr>heap := (heap w)(r := (heap w r)(INDEX \<mapsto> PStr (format_02d i))),
              calls := calls w @ [GetTemplate ''5_2'']\<rparr>)
      else if ext (calls w @ [GetTemplate ''5_2''])
                (PopulateTemplateDir (Template ''5_2'') EPICS ((heap w r)(INDEX \<mapsto> PStr (format_02d i))))
      then (Inl (Raised (PopulateTemplateDir (Template ''5_2'') EPICS ((heap w r)(INDEX \<mapsto> PStr (format_02d i))))),
            w\<lparr>heap := (heap w)(r := (heap w r)(INDEX \<mapsto> PStr (format_02d i))),
              calls := calls w @ loop_calls (heap w r) [i]\<rparr>)
      else ioc_loop ext r rest
            (w\<lparr>heap := (heap w)(r := (heap w r)(INDEX \<mapsto> PStr (format_02d i))),
              calls := calls w @ loop_calls (heap w r) [i]\<rparr>))"
  by (simp add: ioc_loop.simps(2) prog_defs loop_calls_def)

lemma heap_after_setitem:
  "heap (w\<lparr>heap := (heap w)(r := (heap w r)(k \<mapsto> v)), calls := cs\<rparr>) r = (heap w r)(k \<mapsto> v)"
  by simp

text \<open>A loop that returns has made the calls of every iteration.\<close>

lemma ioc_loop_returns_calls:
  "fst (ioc_loop ext r js w) = Inr u \<Longrightarrow>
     calls (snd (ioc_loop ext r js w)) = calls w @ loop_calls (heap w r) js"
proof (induction js arbitrary: w)
  case Nil
  then show ?case by (simp add: return_prog_def loop_calls_def)
next
  case (Cons i rest)
  let ?w1 = "w\<lparr>heap := (heap w)(r := (heap w r)(INDEX \<mapsto> PStr (format_02d i))),
              calls := calls w @ loop_calls (heap w r) [i]\<rparr>"
  from Cons.prems have step: "ioc_loop ext r (i # rest) w = ioc_loop ext r rest ?w1"
    by (simp add: ioc_loop_unfold split: if_splits)
  with Cons.prems have run: "fst (ioc_loop ext r rest ?w1) = Inr u"
    by simp
  have ih: "calls (snd (ioc_loop ext r rest ?w1)) = calls ?w1 @ loop_calls (heap ?w1 r) rest"
    using run by (rule Cons.IH)
  have h: "heap ?w1 r = (heap w r)(INDEX \<mapsto> PStr (format_02d i))"
    by (rule heap_after_setitem)
  show ?case
    unfolding step ih h loop_calls_upd by (simp add: loop_calls_Cons loop_calls_Nil)
qed

text \<open>A loop that returns after at least one iteration leaves the last index in place.\<close>

lemma ioc_loop_returns_index:
  "fst (ioc_loop ext r js w) = Inr u \<Longrightarrow> js \<noteq> [] \<Longrightarrow>
     heap (snd (ioc_loop ext r js w)) r INDEX = Some (PStr (format_02d (last js)))"
proof (induction js arbitrary: w)
  case Nil
  then show ?case by simp
next
  case (Cons i rest)
  then show ?case
    by (cases "rest = []") (simp_all add: ioc_loop_unfold return_prog_def split: if_splits)
qed

text \<open>However the loop ends, it writes nothing but \<open>INDEX\<close> of the device it was given.\<close>

lemma ioc_loop_frame:
  "r' \<noteq> r \<or> k \<noteq> INDEX \<Longrightarrow> heap (snd (ioc_loop ext r js w)) r' k = heap w r' k"
proof (induction js arbitrary: w)
  case Nil
  then show ?case by (simp add: return_prog_def)
next
  case (Cons i rest)
  then show ?case
    by (auto simp add: ioc_loop_unfold)
qed

text \<open>However the loop ends, it has only requested and populated template 5\_2.\<close>

lemma ioc_loop_calls:
  "\<exists>xs. calls (snd (ioc_loop ext r js w)) = calls w @ xs \<and> list_all loop_call xs"
proof (induction js arbitrary: w)
  case Nil
  then show ?case by (simp add: return_prog_def)
next
  case (Cons i rest)
  let ?w1 = "w\<lparr>heap := (heap w)(r := (heap w r)(INDEX \<mapsto> PStr (format_02d i))),
              calls := calls w @ loop_calls (heap w r) [i]\<rparr>"
  from Cons.IH [of ?w1] obtain xs where
    xs: "calls (snd (ioc_loop ext r rest ?w1)) = calls ?w1 @ xs" "list_all loop_call xs"
    by blast
  have one: "list_all loop_call (loop_calls (heap w r) [i])"
    by (rule list_all_loop_calls)
  show ?case
  proof (cases "ext (calls w) (GetTemplate ''5_2'')")
    case True
    then show ?thesis
      by (simp add: ioc_loop_unfold loop_call_def)
  next
    case False
    note first = this
    show ?thesis
    proof (cases "ext (calls w @ [GetTemplate ''5_2''])
                (PopulateTemplateDir (Template ''5_2'') EPICS ((heap w r)(INDEX \<mapsto> PStr (format_02d i))))")
      case True
      with first one show ?thesis
        by (simp add: ioc_loop_unfold)
    next
      case False
      with first one xs show ?thesis
        by (simp add: ioc_loop_unfold)
    qed
  qed
qed

lemma populations_loop_calls:
  "populations (loop_calls d js) =
     map (\<lambda>i. (Template ''5_2'', EPICS, d(INDEX \<mapsto> PStr (format_02d i)))) js"
  by (induction js) (simp_all add: loop_calls_Nil loop_calls_Cons del: fun_upd_apply)

lemma requested_tags_loop_calls:
  "requested_tags (loop_calls d js) = map (\<lambda>i. ''5_2'') js"
  by (induction js) (simp_all add: loop_calls_Nil loop_calls_Cons)

lemma makefile_edits_loop: "list_all loop_call xs \<Longrightarrow> makefile_edits xs = []"
  by (induction xs rule: makefile_edits.induct) (simp_all add: loop_call_def)

lemma tool_invocations_loop: "list_all loop_call xs \<Longrightarrow> filter is_tool_invocation xs = []"
  by (induction xs) (auto simp add: loop_call_def split: call.splits)

lemma after_make_loop: "list_all loop_call xs \<Longrightarrow> calls_after_make (xs @ ys) = calls_after_make ys"
  by (induction xs rule: calls_after_make.induct) (simp_all add: loop_call_def)

lemma no_make_loop: "list_all loop_call xs \<Longrightarrow> RunCommand argv cwd \<notin> set xs"
  by (induction xs) (auto simp add: loop_call_def)

lemma tags_loop: "list_all loop_call xs \<Longrightarrow> set (requested_tags xs) \<subseteq> {''5_2''}"
  by (induction xs rule: requested_tags.induct) (simp_all add: loop_call_def)

lemma targets_loop:
  "list_all loop_call xs \<Longrightarrow> (t, target, d) \<in> set (populations xs) \<Longrightarrow> target = EPICS"
  by (induction xs rule: populations.induct) (auto simp add: loop_call_def)

subsection \<open>The runs of the IOC step\<close>

text \<open>
  Every run of \<^verbatim>\<open>create_ioc_from_template\<close> has one of four shapes. The first three end
  in an exception: at the first \<^verbatim>\<open>get_template\<close>; after the primary app and some loop
  calls; after the build-list edit. The fourth has reached \<^verbatim>\<open>run_command\<close>.
\<close>

lemma create_ioc_shapes:
  "(fst (create_ioc_from_template ext r w) \<noteq> Inr () \<and>
      (emitted (create_ioc_from_template ext r) w = [GetTemplate ''5_1''] \<or>
       (\<exists>xs. list_all loop_call xs \<and>
          emitted (create_ioc_from_template ext r) w = ioc_head (heap w r) @ xs) \<or>
       (\<exists>xs e. list_all loop_call xs \<and> heap w r IOC_NAME = Some e \<and>
          emitted (create_ioc_from_template ext r) w =
            ioc_head (heap w r) @ xs @ [AddToMakefileList IOC_ROOT ''IOCDIRS'' e]))) \<or>
   (\<exists>N e c. heap w r DEVICE_COUNT = Some (PInt N) \<and> heap w r IOC_NAME = Some e \<and>
        heap w r IOC_PATH = Some c \<and>
        emitted (create_ioc_from_template ext r) w =
          ioc_head (heap w r) @ loop_calls (heap w r) [2..N] @ ioc_tail e c)"
proof -
  let ?G = "GetTemplate ''5_1''"
  let ?P = "PopulateTemplateDir (Template ''5_1'') EPICS (heap w r)"
  let ?w2 = "w\<lparr>calls := calls w @ [?G, ?P]\<rparr>"
  let ?step = "create_ioc_from_template ext r"
  show ?thesis
  proof (cases "ext (calls w) ?G \<or> ext (calls w @ [?G]) ?P")
    case True
    then show ?thesis
      by (auto simp add: emitted_def create_ioc_from_template_def prog_defs ioc_head_def)
  next
    case False
    note ok = this
    show ?thesis
    proof (cases "heap w r DEVICE_COUNT")
      case None
      with ok show ?thesis
        by (auto simp add: emitted_def create_ioc_from_template_def prog_defs ioc_head_def)
    next
      case (Some v)
      show ?thesis
      proof (cases v)
        case (PStr s)
        with ok Some show ?thesis
          by (auto simp add: emitted_def create_ioc_from_template_def prog_defs ioc_head_def)
      next
        case (PInt N)
        let ?loop = "ioc_loop ext r [2..N] ?w2"
        have eq: "?step w =
            bind_prog (ioc_loop ext r [2..N]) (\<lambda>_.
            bind_prog (getitem r IOC_NAME) (\<lambda>entry.
            bind_prog (add_to_makefile_list ext IOC_ROOT ''IOCDIRS'' entry) (\<lambda>_.
            bind_prog (getitem r IOC_PATH) (\<lambda>cwd.
            run_command ext [''make''] cwd)))) ?w2"
          using ok Some PInt
          by (simp add: create_ioc_from_template_def py_range_def bind_prog_def get_template_def
              populate_template_dir_def external_def getitem_def plus_one_def)
        obtain xs where xs: "calls (snd ?loop) = calls ?w2 @ xs" "list_all loop_call xs"
          using ioc_loop_calls by blast
        have name: "heap (snd ?loop) r IOC_NAME = heap w r IOC_NAME"
          and path: "heap (snd ?loop) r IOC_PATH = heap w r IOC_PATH"
          by (simp_all add: ioc_loop_frame)
        show ?thesis
        proof (cases "fst ?loop")
          case (Inl e)
          with xs show ?thesis
            by (auto simp add: emitted_def eq bind_prog_alt ioc_head_def)
        next
          case (Inr u)
          then have full: "calls (snd ?loop) = calls ?w2 @ loop_calls (heap w r) [2..N]"
            using ioc_loop_returns_calls [of ext r "[2..N]" ?w2 u] by simp
          show ?thesis
          proof (cases "heap w r IOC_NAME")
            case None
            with Inr full name list_all_loop_calls [of "heap w r" "[2..N]"] show ?thesis
              by (auto simp add: emitted_def eq bind_prog_alt ioc_head_def getitem_def)
          next
            case (Some e)
            note e = this
            show ?thesis
            proof (cases "heap w r IOC_PATH")
              case None
              with Inr full name path e list_all_loop_calls [of "heap w r" "[2..N]"] show ?thesis
                by (auto simp add: emitted_def eq bind_prog_alt ioc_head_def getitem_def
                    add_to_makefile_list_def external_def)
            next
              case (Some c)
              with Inr full name path e PInt \<open>heap w r DEVICE_COUNT = Some v\<close>
                list_all_loop_calls [of "heap w r" "[2..N]"] show ?thesis
                by (auto simp add: emitted_def eq bind_prog_alt ioc_head_def ioc_tail_def getitem_def
                    add_to_makefile_list_def run_command_def external_def)
            qed
          qed
        qed
      qed
    qed
  qed
qed

text \<open>A run that returns has the fourth shape.\<close>

lemma create_ioc_returns:
  assumes "fst (create_ioc_from_template ext r w) = Inr ()"
  shows "\<exists>N e c. heap w r DEVICE_COUNT = Some (PInt N) \<and> heap w r IOC_NAME = Some e \<and>
        heap w r IOC_PATH = Some c \<and>
        emitted (create_ioc_from_template ext r) w =
          ioc_head (heap w r) @ loop_calls (heap w r) [2..N] @ ioc_tail e c"
  using create_ioc_shapes [of ext r w] assms by blast

text \<open>The run on the concrete device, evaluated.\<close>

lemma demo_ioc_run:
  "create_ioc_from_template never_fails 0 demo_world =
     (Inr (), \<lparr>heap = (\<lambda>r. Map.empty)(0 := demo_device(INDEX \<mapsto> PStr ''03'')),
       calls = ioc_head demo_device @ loop_calls demo_device [2, 3] @
         ioc_tail (PStr ''CHOPPER'') (PStr ''ioc/CHOPPER'')\<rparr>)"
  by (simp add: create_ioc_from_template_def prog_defs py_range_def ioc_loop.simps(2) never_fails_def
      demo_world_def demo_device_def ioc_head_def ioc_tail_def loop_calls_def
      format_02d_def dec_nat.simps digit_char_def)

lemma demo_heap: "heap demo_world 0 = demo_device"
  by (simp add: demo_world_def)

lemma demo_format: "format_02d 2 = ''02''" "format_02d 3 = ''03''"
  by (simp_all add: format_02d_def dec_nat.simps digit_char_def)

text \<open>With collaborators that never raise, the step returns whenever the record has the
  keys it reads.\<close>

lemma ioc_loop_never_fails: "fst (ioc_loop never_fails r js w) = Inr ()"
  by (induction js arbitrary: w) (simp_all add: ioc_loop_unfold never_fails_def return_prog_def)

lemma create_ioc_never_fails:
  assumes "heap w r DEVICE_COUNT = Some (PInt N)" and "heap w r IOC_NAME = Some e"
    and "heap w r IOC_PATH = Some c"
  shows "fst (create_ioc_from_template never_fails r w) = Inr ()"
  using assms
  by (simp add: create_ioc_from_template_def bind_prog_alt getitem_def external_def
      get_template_def populate_template_dir_def add_to_makefile_list_def run_command_def
      plus_one_def ioc_loop_frame ioc_loop_never_fails never_fails_def)

lemma format_02d_100: "format_02d 100 = ''100''"
  by (simp add: format_02d_def dec_nat.simps digit_char_def)

subsection \<open>The populations of the IOC step\<close>

text \<open>
  Claim C1. Let the device count be \<open>N \<ge> 1\<close> and let \<^verbatim>\<open>create_ioc_from_template\<close> return.
  Then its template populations are, in order: template 5\_1 into EPICS with the
  placeholder mapping exactly as it was on entry (the step has not written \<open>index\<close>
  yet), and then for each \<open>i\<close> from 2 to \<open>N\<close> template 5\_2 with \<open>index\<close> set to
  \<^verbatim>\<open>"{:02d}".format(i)\<close>. These are \<open>N\<close> populations. For \<open>N = 1\<close> there is one
  population and the loop body has not run: the object store is as on entry. Each index
  is the zero-padded decimal of its \<open>i\<close>, read from the digits of the string, and the
  only such string; up to 99 it has exactly two characters.
\<close>

theorem create_ioc_populations:
  assumes count: "heap w device DEVICE_COUNT = Some (PInt N)" and pos: "1 \<le> N"
    and ret: "fst (create_ioc_from_template ext device w) = Inr ()"
  shows "populations (emitted (create_ioc_from_template ext device) w) =
           (Template ''5_1'', EPICS, heap w device) #
           map (\<lambda>i. (Template ''5_2'', EPICS, (heap w device)(INDEX \<mapsto> PStr (format_02d i)))) [2..N]
       \<and> length (populations (emitted (create_ioc_from_template ext device) w)) = nat N
       \<and> (N = 1 \<longrightarrow> length (populations (emitted (create_ioc_from_template ext device) w)) = 1
             \<and> heap (snd (create_ioc_from_template ext device w)) = heap w)
       \<and> (\<forall>i \<in> set [2..N]. zero_padded_decimal i (format_02d i) \<and>
             (\<forall>s. zero_padded_decimal i s \<longrightarrow> s = format_02d i) \<and>
             (i < 100 \<longrightarrow> length (format_02d i) = 2))"
proof -
  from create_ioc_returns [OF ret] count obtain e c where
    E: "emitted (create_ioc_from_template ext device) w =
          ioc_head (heap w device) @ loop_calls (heap w device) [2..N] @ ioc_tail e c"
    by auto
  have pops: "populations (emitted (create_ioc_from_template ext device) w) =
           (Template ''5_1'', EPICS, heap w device) #
           map (\<lambda>i. (Template ''5_2'', EPICS, (heap w device)(INDEX \<mapsto> PStr (format_02d i)))) [2..N]"
    unfolding E by (simp add: populations_append populations_loop_calls ioc_head_def ioc_tail_def)
  have len: "length (populations (emitted (create_ioc_from_template ext device) w)) = nat N"
    unfolding pops using pos by simp
  have one: "heap (snd (create_ioc_from_template ext device w)) = heap w" if "N = 1"
    using that count
    by (simp add: create_ioc_from_template_def prog_defs py_range_def
        split: option.splits sum.splits prod.splits if_splits)
  have digits: "zero_padded_decimal i (format_02d i) \<and>
             (\<forall>s. zero_padded_decimal i s \<longrightarrow> s = format_02d i) \<and>
             (i < 100 \<longrightarrow> length (format_02d i) = 2)" if "i \<in> set [2..N]" for i
  proof -
    from that have nonneg: "0 \<le> i" by simp
    then have padded: "zero_padded_decimal i (format_02d i)"
      by (rule format_02d_padded)
    have only: "\<forall>s. zero_padded_decimal i s \<longrightarrow> s = format_02d i"
    proof (intro allI impI)
      fix s
      assume "zero_padded_decimal i s"
      from zero_padded_decimal_unique [OF this padded] show "s = format_02d i" .
    qed
    have two: "i < 100 \<longrightarrow> length (format_02d i) = 2"
      using nonneg by (simp add: length_format_02d)
    from padded only two show ?thesis
      by (intro conjI)
  qed
  have every: "\<forall>i \<in> set [2..N]. zero_padded_decimal i (format_02d i) \<and>
             (\<forall>s. zero_padded_decimal i s \<longrightarrow> s = format_02d i) \<and>
             (i < 100 \<longrightarrow> length (format_02d i) = 2)"
    by (intro ballI) (rule digits)
  have single: "N = 1 \<longrightarrow> length (populations (emitted (create_ioc_from_template ext device) w)) = 1
             \<and> heap (snd (create_ioc_from_template ext device w)) = heap w"
  proof (intro impI conjI)
    assume "N = 1"
    with len show "length (populations (emitted (create_ioc_from_template ext device) w)) = 1"
      by simp
    from one [OF \<open>N = 1\<close>] show "heap (snd (create_ioc_from_template ext device w)) = heap w" .
  qed
  from pops len single every show ?thesis
    by (intro conjI)
qed

theorem create_ioc_populations_witness:
  "heap demo_world 0 DEVICE_COUNT = Some (PInt 3) \<and> (1::int) \<le> 3 \<and>
   fst (create_ioc_from_template never_fails 0 demo_world) = Inr () \<and>
   populations (emitted (create_ioc_from_template never_fails 0) demo_world) =
     [(Template ''5_1'', EPICS, demo_device),
      (Template ''5_2'', EPICS, demo_device(INDEX \<mapsto> PStr ''02'')),
      (Template ''5_2'', EPICS, demo_device(INDEX \<mapsto> PStr ''03''))] \<and>
   length (populations (emitted (create_ioc_from_template never_fails 0) demo_world)) = 3 \<and>
   heap demo_world_12 0 DEVICE_COUNT = Some (PInt 12) \<and> (1::int) \<le> 12 \<and>
   fst (create_ioc_from_template never_fails 0 demo_world_12) = Inr () \<and>
   map (\<lambda>p. snd (snd p) INDEX) (populations (emitted (create_ioc_from_template never_fails 0) demo_world_12)) =
     [None, Some (PStr ''02''), Some (PStr ''03''), Some (PStr ''04''), Some (PStr ''05''),
      Some (PStr ''06''), Some (PStr ''07''), Some (PStr ''08''), Some (PStr ''09''),
      Some (PStr ''10''), Some (PStr ''11''), Some (PStr ''12'')] \<and>
   zero_padded_decimal 10 ''10'' \<and> \<not> zero_padded_decimal 10 ''00'' \<and>
   \<not> zero_padded_decimal 12 ''02'' \<and> \<not> zero_padded_decimal 7 ''7''"
proof -
  have count: "heap demo_world 0 DEVICE_COUNT = Some (PInt 3)"
    by (simp add: demo_world_def demo_device_def)
  have pos: "(1::int) \<le> 3"
    by simp
  have ret: "fst (create_ioc_from_template never_fails 0 demo_world) = Inr ()"
    by (simp add: demo_ioc_run)
  note run3 = create_ioc_populations [OF count pos ret]
  have "populations (emitted (create_ioc_from_template never_fails 0) demo_world) =
           (Template ''5_1'', EPICS, heap demo_world 0) #
           map (\<lambda>i. (Template ''5_2'', EPICS, (heap demo_world 0)(INDEX \<mapsto> PStr (format_02d i)))) [2..3]"
    using run3 by (rule conjunct1)
  moreover
  have "length (populations (emitted (create_ioc_from_template never_fails 0) demo_world)) = nat 3"
    using run3 [THEN conjunct2] by (rule conjunct1)
  ultimately
  have three: "heap demo_world 0 DEVICE_COUNT = Some (PInt 3) \<and> (1::int) \<le> 3 \<and>
   fst (create_ioc_from_template never_fails 0 demo_world) = Inr () \<and>
   populations (emitted (create_ioc_from_template never_fails 0) demo_world) =
     [(Template ''5_1'', EPICS, demo_device),
      (Template ''5_2'', EPICS, demo_device(INDEX \<mapsto> PStr ''02'')),
      (Template ''5_2'', EPICS, demo_device(INDEX \<mapsto> PStr ''03''))] \<and>
   length (populations (emitted (create_ioc_from_template never_fails 0) demo_world)) = 3"
    using count ret by (simp add: demo_heap demo_format del: fun_upd_apply)
  have count12: "heap demo_world_12 0 DEVICE_COUNT = Some (PInt 12)"
    by (simp add: demo_world_12_def)
  have pos12: "(1::int) \<le> 12"
    by simp
  have ret12: "fst (create_ioc_from_template never_fails 0 demo_world_12) = Inr ()"
    by (rule create_ioc_never_fails [OF count12])
      (simp_all add: demo_world_12_def demo_device_def)
  have entry: "heap demo_world_12 0 INDEX = None"
    by (simp add: demo_world_12_def demo_device_def)
  have "populations (emitted (create_ioc_from_template never_fails 0) demo_world_12) =
           (Template ''5_1'', EPICS, heap demo_world_12 0) #
           map (\<lambda>i. (Template ''5_2'', EPICS, (heap demo_world_12 0)(INDEX \<mapsto> PStr (format_02d i)))) [2..12]"
    using create_ioc_populations [OF count12 pos12 ret12] by (rule conjunct1)
  then have twelve: "map (\<lambda>p. snd (snd p) INDEX)
      (populations (emitted (create_ioc_from_template never_fails 0) demo_world_12)) =
     [None, Some (PStr ''02''), Some (PStr ''03''), Some (PStr ''04''), Some (PStr ''05''),
      Some (PStr ''06''), Some (PStr ''07''), Some (PStr ''08''), Some (PStr ''09''),
      Some (PStr ''10''), Some (PStr ''11''), Some (PStr ''12'')]"
    using entry by (simp add: format_02d_def dec_nat.simps digit_char_def)
  have pad: "zero_padded_decimal 10 ''10''" "\<not> zero_padded_decimal 10 ''00''"
    "\<not> zero_padded_decimal 12 ''02''" "\<not> zero_padded_decimal 7 ''7''"
    by (simp_all add: zero_padded_decimal_def is_digit_def decimal_value_def digit_of_def)
  from three count12 ret12 twelve pad show ?thesis
    by simp
qed

subsection \<open>What the steps write to the device record\<close>

lemma create_submodule_heap: "heap (snd (create_submodule ext r w)) = heap w"
  by (simp add: create_submodule_def prog_defs split: option.splits sum.splits prod.splits)

lemma create_submodule_structure_heap: "heap (snd (create_submodule_structure ext r w)) = heap w"
  by (simp add: create_submodule_structure_def prog_defs split: option.splits sum.splits prod.splits)

lemma add_test_framework_heap: "heap (snd (add_test_framework ext r w)) = heap w"
  by (simp add: add_test_framework_def prog_defs split: option.splits sum.splits prod.splits)

lemma add_lewis_emulator_heap: "heap (snd (add_lewis_emulator ext r w)) = heap w"
  by (simp add: add_lewis_emulator_def prog_defs split: option.splits sum.splits prod.splits)

lemma add_opi_to_gui_heap: "heap (snd (add_opi_to_gui ext r w)) = heap w"
  by (simp add: add_opi_to_gui_def prog_defs split: option.splits sum.splits prod.splits)

lemma create_ioc_frame:
  assumes "r' \<noteq> r \<or> k \<noteq> INDEX"
  shows "heap (snd (create_ioc_from_template ext r w)) r' k = heap w r' k"
  using assms
  by (simp add: create_ioc_from_template_def bind_prog_alt getitem_def external_def
      get_template_def populate_template_dir_def add_to_makefile_list_def run_command_def
      plus_one_def ioc_loop_frame split: option.splits sum.splits pval.splits)

text \<open>
  Claim C4. Five of the six step functions leave the whole object store as they found
  it, whatever the collaborators do. \<^verbatim>\<open>create_ioc_from_template\<close> changes at most the
  key \<open>INDEX\<close> of the device record it was given: every other key of that record, and
  every other object, is as before.
\<close>

theorem steps_write_only_index:
  "heap (snd (create_submodule ext device w)) = heap w \<and>
   heap (snd (create_submodule_structure ext device w)) = heap w \<and>
   heap (snd (add_test_framework ext device w)) = heap w \<and>
   heap (snd (add_lewis_emulator ext device w)) = heap w \<and>
   heap (snd (add_opi_to_gui ext device w)) = heap w \<and>
   (\<forall>r k. r \<noteq> device \<or> k \<noteq> INDEX \<longrightarrow>
      heap (snd (create_ioc_from_template ext device w)) r k = heap w r k)"
  by (simp add: create_submodule_heap create_submodule_structure_heap add_test_framework_heap
      add_lewis_emulator_heap add_opi_to_gui_heap create_ioc_frame)

theorem steps_write_only_index_witness:
  "heap (snd (create_submodule never_fails 0 demo_world)) = heap demo_world \<and>
   heap (snd (add_opi_to_gui never_fails 0 demo_world)) = heap demo_world \<and>
   heap (snd (create_ioc_from_template never_fails 0 demo_world)) 0 IOC_NAME = Some (PStr ''CHOPPER'') \<and>
   heap (snd (create_ioc_from_template never_fails 0 demo_world)) 0 DEVICE_COUNT = Some (PInt 3) \<and>
   heap (snd (create_ioc_from_template never_fails 0 demo_world)) 1 INDEX = None \<and>
   heap demo_world 0 INDEX = None \<and>
   heap (snd (create_ioc_from_template never_fails 0 demo_world)) 0 INDEX = Some (PStr ''03'')"
proof -
  note frame = steps_write_only_index [of never_fails 0 demo_world]
  have name: "heap (snd (create_ioc_from_template never_fails 0 demo_world)) 0 IOC_NAME =
      heap demo_world 0 IOC_NAME"
    using frame by blast
  have count: "heap (snd (create_ioc_from_template never_fails 0 demo_world)) 0 DEVICE_COUNT =
      heap demo_world 0 DEVICE_COUNT"
    using frame by blast
  have other: "heap (snd (create_ioc_from_template never_fails 0 demo_world)) 1 INDEX =
      heap demo_world 1 INDEX"
    using frame by (metis zero_neq_one)
  have written: "heap (snd (create_ioc_from_template never_fails 0 demo_world)) 0 INDEX = Some (PStr ''03'')"
    by (simp add: demo_ioc_run)
  from frame name count other written show ?thesis
    by (simp add: demo_world_def demo_device_def)
qed

subsection \<open>Build-list edits and tool invocations\<close>

lemma create_submodule_edits:
  "makefile_edits (emitted (create_submodule ext r) w) = [] \<and> fst (create_submodule ext r w) \<noteq> Inr () \<or>
   (\<exists>name. heap w r DEVICE_SUPPORT_MODULE_NAME = Some name \<and>
      makefile_edits (emitted (create_submodule ext r) w) = [(EPICS_SUPPORT, ''SUPPDIRS'', name)])"
  by (simp add: emitted_def create_submodule_def prog_defs split: option.splits sum.splits prod.splits)

lemma create_submodule_tools:
  "length (filter is_tool_invocation (emitted (create_submodule ext r) w)) \<le> 1"
  by (simp add: emitted_def create_submodule_def prog_defs split: option.splits sum.splits prod.splits)

lemma create_submodule_structure_edits:
  "makefile_edits (emitted (create_submodule_structure ext r) w) = []"
  by (simp add: emitted_def create_submodule_structure_def prog_defs
      split: option.splits sum.splits prod.splits)

lemma create_submodule_structure_tools:
  "length (filter is_tool_invocation (emitted (create_submodule_structure ext r) w)) \<le> 1"
  by (simp add: emitted_def create_submodule_structure_def prog_defs
      split: option.splits sum.splits prod.splits)

lemma add_test_framework_edits:
  "makefile_edits (emitted (add_test_framework ext r) w) = [] \<and>
   filter is_tool_invocation (emitted (add_test_framework ext r) w) = []"
  by (simp add: emitted_def add_test_framework_def prog_defs split: option.splits sum.splits prod.splits)

lemma add_lewis_emulator_edits:
  "makefile_edits (emitted (add_lewis_emulator ext r) w) = [] \<and>
   filter is_tool_invocation (emitted (add_lewis_emulator ext r) w) = []"
  by (simp add: emitted_def add_lewis_emulator_def prog_defs split: option.splits sum.splits prod.splits)

lemma add_opi_to_gui_edits:
  "makefile_edits (emitted (add_opi_to_gui ext r) w) = [] \<and>
   filter is_tool_invocation (emitted (add_opi_to_gui ext r) w) = []"
  by (simp add: emitted_def add_opi_to_gui_def prog_defs split: option.splits sum.splits prod.splits)

lemma create_ioc_edits:
  "makefile_edits (emitted (create_ioc_from_template ext r) w) = [] \<and>
     fst (create_ioc_from_template ext r w) \<noteq> Inr () \<or>
   (\<exists>name. heap w r IOC_NAME = Some name \<and>
      makefile_edits (emitted (create_ioc_from_template ext r) w) = [(IOC_ROOT, ''IOCDIRS'', name)])"
  using create_ioc_shapes [of ext r w] list_all_loop_calls [of "heap w r"]
  by (auto simp add: makefile_edits_append makefile_edits_loop ioc_head_def ioc_tail_def)

lemma create_ioc_tools:
  "length (filter is_tool_invocation (emitted (create_ioc_from_template ext r) w)) \<le> 1"
  using create_ioc_shapes [of ext r w] list_all_loop_calls [of "heap w r"]
  by (auto simp add: tool_invocations_loop ioc_head_def ioc_tail_def)

text \<open>
  Claim C2. Whatever the collaborators do: four steps make no build-list edit;
  \<^verbatim>\<open>create_submodule\<close> makes none or exactly one, which adds the device support module
  name to \<open>SUPPDIRS\<close> of the \<open>EPICS_SUPPORT\<close> build file; \<^verbatim>\<open>create_ioc_from_template\<close>
  makes none or exactly one, which adds the IOC name to \<open>IOCDIRS\<close> of the \<open>IOC_ROOT\<close>
  build file; each of the two makes its edit when it returns. Every step makes at most
  one build-list edit and at most one external-tool invocation.
\<close>

theorem build_list_edits:
  "makefile_edits (emitted (create_submodule_structure ext device) w) = [] \<and>
   makefile_edits (emitted (add_test_framework ext device) w) = [] \<and>
   makefile_edits (emitted (add_lewis_emulator ext device) w) = [] \<and>
   makefile_edits (emitted (add_opi_to_gui ext device) w) = [] \<and>
   (makefile_edits (emitted (create_submodule ext device) w) = [] \<or>
    (\<exists>name. heap w device DEVICE_SUPPORT_MODULE_NAME = Some name \<and>
       makefile_edits (emitted (create_submodule ext device) w) = [(EPICS_SUPPORT, ''SUPPDIRS'', name)])) \<and>
   (fst (create_submodule ext device w) = Inr () \<longrightarrow>
      makefile_edits (emitted (create_submodule ext device) w) \<noteq> []) \<and>
   (makefile_edits (emitted (create_ioc_from_template ext device) w) = [] \<or>
    (\<exists>name. heap w device IOC_NAME = Some name \<and>
       makefile_edits (emitted (create_ioc_from_template ext device) w) = [(IOC_ROOT, ''IOCDIRS'', name)])) \<and>
   (fst (create_ioc_from_template ext device w) = Inr () \<longrightarrow>
      makefile_edits (emitted (create_ioc_from_template ext device) w) \<noteq> []) \<and>
   (\<forall>step \<in> set [create_submodule, create_submodule_structure, create_ioc_from_template,
        add_test_framework, add_lewis_emulator, add_opi_to_gui].
      length (makefile_edits (emitted (step ext device) w)) \<le> 1 \<and>
      length (filter is_tool_invocation (emitted (step ext device) w)) \<le> 1)"
proof -
  note sub = create_submodule_edits [of ext device w]
  note ioc = create_ioc_edits [of ext device w]
  have sub1: "length (makefile_edits (emitted (create_submodule ext device) w)) \<le> 1"
    using sub by auto
  have ioc1: "length (makefile_edits (emitted (create_ioc_from_template ext device) w)) \<le> 1"
    using ioc by auto
  have sub2: "makefile_edits (emitted (create_submodule ext device) w) = [] \<or>
    (\<exists>name. heap w device DEVICE_SUPPORT_MODULE_NAME = Some name \<and>
       makefile_edits (emitted (create_submodule ext device) w) = [(EPICS_SUPPORT, ''SUPPDIRS'', name)])"
    using sub by blast
  have sub3: "fst (create_submodule ext device w) = Inr () \<longrightarrow>
      makefile_edits (emitted (create_submodule ext device) w) \<noteq> []"
    using sub by auto
  have ioc2: "makefile_edits (emitted (create_ioc_from_template ext device) w) = [] \<or>
    (\<exists>name. heap w device IOC_NAME = Some name \<and>
       makefile_edits (emitted (create_ioc_from_template ext device) w) = [(IOC_ROOT, ''IOCDIRS'', name)])"
    using ioc by blast
  have ioc3: "fst (create_ioc_from_template ext device w) = Inr () \<longrightarrow>
      makefile_edits (emitted (create_ioc_from_template ext device) w) \<noteq> []"
    using ioc by auto
  have every: "\<forall>step \<in> set [create_submodule, create_submodule_structure, create_ioc_from_template,
        add_test_framework, add_lewis_emulator, add_opi_to_gui].
      length (makefile_edits (emitted (step ext device) w)) \<le> 1 \<and>
      length (filter is_tool_invocation (emitted (step ext device) w)) \<le> 1"
    using sub1 ioc1 create_submodule_tools [of ext device w]
      create_submodule_structure_tools [of ext device w] create_ioc_tools [of ext device w]
    by (simp add: create_submodule_structure_edits add_test_framework_edits
        add_lewis_emulator_edits add_opi_to_gui_edits)
  from sub2 sub3 ioc2 ioc3 every show ?thesis
    by (simp only: create_submodule_structure_edits add_test_framework_edits
        add_lewis_emulator_edits add_opi_to_gui_edits simp_thms)
qed

lemma demo_calls: "calls demo_world = []"
  by (simp add: demo_world_def)

lemma demo_submodule_run:
  "create_submodule never_fails 0 demo_world =
     (Inr (), demo_world\<lparr>calls :=
        [RepoWrapperInit EPICS, GithubRepoUrl (PStr ''EPICS-chopper''),
         RepoCreateSubmodule EPICS (PStr ''chopper'') (RepoUrl (PStr ''EPICS-chopper''))
           (PStr ''support/chopper''),
         GetTemplate ''3'', PopulateTemplateDir (Template ''3'') EPICS demo_device,
         AddToMakefileList EPICS_SUPPORT ''SUPPDIRS'' (PStr ''chopper'')]\<rparr>)"
  by (simp add: create_submodule_def prog_defs never_fails_def demo_world_def demo_device_def)

theorem build_list_edits_witness:
  "fst (create_submodule never_fails 0 demo_world) = Inr () \<and>
   makefile_edits (emitted (create_submodule never_fails 0) demo_world) =
     [(EPICS_SUPPORT, ''SUPPDIRS'', PStr ''chopper'')] \<and>
   fst (create_ioc_from_template never_fails 0 demo_world) = Inr () \<and>
   makefile_edits (emitted (create_ioc_from_template never_fails 0) demo_world) =
     [(IOC_ROOT, ''IOCDIRS'', PStr ''CHOPPER'')] \<and>
   makefile_edits (emitted (add_opi_to_gui never_fails 0) demo_world) = [] \<and>
   length (filter is_tool_invocation (emitted (create_submodule never_fails 0) demo_world)) \<le> 1"
proof -
  note edits = build_list_edits [of never_fails 0 demo_world]
  have sub: "fst (create_submodule never_fails 0 demo_world) = Inr ()"
    by (simp add: demo_submodule_run)
  have ioc: "fst (create_ioc_from_template never_fails 0 demo_world) = Inr ()"
    by (simp add: demo_ioc_run)
  have module: "heap demo_world 0 DEVICE_SUPPORT_MODULE_NAME = Some (PStr ''chopper'')"
    and name: "heap demo_world 0 IOC_NAME = Some (PStr ''CHOPPER'')"
    by (simp_all add: demo_world_def demo_device_def)
  from edits sub module
  have e1: "makefile_edits (emitted (create_submodule never_fails 0) demo_world) =
     [(EPICS_SUPPORT, ''SUPPDIRS'', PStr ''chopper'')]"
    by auto
  from edits ioc name
  have e2: "makefile_edits (emitted (create_ioc_from_template never_fails 0) demo_world) =
     [(IOC_ROOT, ''IOCDIRS'', PStr ''CHOPPER'')]"
    by auto
  from edits have e3: "makefile_edits (emitted (add_opi_to_gui never_fails 0) demo_world) = []"
    by blast
  from edits
  have e4: "length (filter is_tool_invocation (emitted (create_submodule never_fails 0) demo_world)) \<le> 1"
    by simp
  from sub ioc e1 e2 e3 e4 show ?thesis
    by simp
qed

subsection \<open>The build runs after the populations\<close>

lemma populations_after_make_loop:
  "list_all loop_call xs \<Longrightarrow> populations (calls_after_make xs) = []"
  using after_make_loop [of xs "[]"] by simp

lemma structure_make:
  "populations (calls_after_make (emitted (create_submodule_structure ext r) w)) = [] \<and>
   (RunCommand argv cwd \<in> set (emitted (create_submodule_structure ext r) w) \<longrightarrow>
      argv = [''make''] \<and>
      populations (emitted (create_submodule_structure ext r) w) = [(Template ''4'', EPICS, heap w r)]) \<and>
   (fst (create_submodule_structure ext r w) = Inr () \<longrightarrow>
      (\<exists>dir. last (emitted (create_submodule_structure ext r) w) = RunCommand [''make''] dir))"
  by (simp add: emitted_def create_submodule_structure_def prog_defs
      split: option.splits sum.splits prod.splits)

lemma ioc_make_after:
  "populations (calls_after_make (emitted (create_ioc_from_template ext r) w)) = []"
  using create_ioc_shapes [of ext r w] list_all_loop_calls [of "heap w r"]
  by (auto simp add: ioc_head_def ioc_tail_def after_make_loop populations_after_make_loop)

lemma ioc_make_complete:
  assumes "RunCommand argv cwd \<in> set (emitted (create_ioc_from_template ext r) w)"
  shows "argv = [''make''] \<and>
    (\<exists>N. heap w r DEVICE_COUNT = Some (PInt N) \<and>
       populations (emitted (create_ioc_from_template ext r) w) =
         (Template ''5_1'', EPICS, heap w r) #
         map (\<lambda>i. (Template ''5_2'', EPICS, (heap w r)(INDEX \<mapsto> PStr (format_02d i)))) [2..N])"
proof -
  from create_ioc_shapes [of ext r w] assms obtain N e c where
    count: "heap w r DEVICE_COUNT = Some (PInt N)" and
    E: "emitted (create_ioc_from_template ext r) w =
          ioc_head (heap w r) @ loop_calls (heap w r) [2..N] @ ioc_tail e c"
    by (auto simp add: ioc_head_def dest: no_make_loop)
  from assms have "argv = [''make'']"
    unfolding E using no_make_loop [OF list_all_loop_calls, of argv cwd "heap w r" "[2..N]"]
    by (auto simp add: ioc_head_def ioc_tail_def)
  moreover have "populations (emitted (create_ioc_from_template ext r) w) =
         (Template ''5_1'', EPICS, heap w r) #
         map (\<lambda>i. (Template ''5_2'', EPICS, (heap w r)(INDEX \<mapsto> PStr (format_02d i)))) [2..N]"
    unfolding E by (simp add: populations_append populations_loop_calls ioc_head_def ioc_tail_def)
  ultimately show ?thesis
    using count by blast
qed

lemma ioc_make_last:
  assumes "fst (create_ioc_from_template ext r w) = Inr ()"
  shows "\<exists>dir. last (emitted (create_ioc_from_template ext r) w) = RunCommand [''make''] dir"
  using create_ioc_returns [OF assms] by (auto simp add: ioc_tail_def)

text \<open>
  Claim C3. In \<^verbatim>\<open>create_submodule_structure\<close> and in \<^verbatim>\<open>create_ioc_from_template\<close>,
  whatever the collaborators do, no template population follows the \<^verbatim>\<open>run_command\<close>
  call; when \<^verbatim>\<open>run_command\<close> is called its command is \<^verbatim>\<open>["make"]\<close> and the step has
  made all its populations (one for the structure step; the primary app and the apps
  2 to \<open>N\<close> for the IOC step); a step that returns has called it last. A template
  population, as the specification describes the populator, is a single collaborator
  call and contains no \<^verbatim>\<open>run_command\<close>.
\<close>

theorem make_runs_after_populations:
  "populations (calls_after_make (emitted (create_submodule_structure ext device) w)) = [] \<and>
   populations (calls_after_make (emitted (create_ioc_from_template ext device) w)) = [] \<and>
   (\<forall>argv cwd. RunCommand argv cwd \<in> set (emitted (create_submodule_structure ext device) w) \<longrightarrow>
      argv = [''make''] \<and>
      populations (emitted (create_submodule_structure ext device) w) =
        [(Template ''4'', EPICS, heap w device)]) \<and>
   (\<forall>argv cwd. RunCommand argv cwd \<in> set (emitted (create_ioc_from_template ext device) w) \<longrightarrow>
      argv = [''make''] \<and>
      (\<exists>N. heap w device DEVICE_COUNT = Some (PInt N) \<and>
         populations (emitted (create_ioc_from_template ext device) w) =
           (Template ''5_1'', EPICS, heap w device) #
           map (\<lambda>i. (Template ''5_2'', EPICS, (heap w device)(INDEX \<mapsto> PStr (format_02d i)))) [2..N])) \<and>
   (fst (create_submodule_structure ext device w) = Inr () \<longrightarrow>
      (\<exists>dir. last (emitted (create_submodule_structure ext device) w) = RunCommand [''make''] dir)) \<and>
   (fst (create_ioc_from_template ext device w) = Inr () \<longrightarrow>
      (\<exists>dir. last (emitted (create_ioc_from_template ext device) w) = RunCommand [''make''] dir)) \<and>
   (\<forall>t target argv cwd.
      RunCommand argv cwd \<notin> set (emitted (populate_template_dir ext t target device) w))"
proof -
  have populate: "\<forall>t target argv cwd.
      RunCommand argv cwd \<notin> set (emitted (populate_template_dir ext t target device) w)"
    by (simp add: emitted_def populate_template_dir_def external_def)
  from structure_make [of ext device w] ioc_make_after [of ext device w]
    ioc_make_complete [of _ _ ext device w] ioc_make_last [of ext device w] populate
  show ?thesis
    by blast
qed

lemma demo_structure_run:
  "create_submodule_structure never_fails 0 demo_world =
     (Inr (), demo_world\<lparr>calls :=
        [GetTemplate ''4'', PopulateTemplateDir (Template ''4'') EPICS demo_device,
         RunCommand [''make''] (PStr ''support/chopper'')]\<rparr>)"
  by (simp add: create_submodule_structure_def prog_defs never_fails_def demo_world_def
      demo_device_def)

theorem make_runs_after_populations_witness:
  "fst (create_ioc_from_template never_fails 0 demo_world) = Inr () \<and>
   RunCommand [''make''] (PStr ''ioc/CHOPPER'') \<in>
     set (emitted (create_ioc_from_template never_fails 0) demo_world) \<and>
   length (populations (emitted (create_ioc_from_template never_fails 0) demo_world)) = 3 \<and>
   populations (calls_after_make (emitted (create_ioc_from_template never_fails 0) demo_world)) = [] \<and>
   fst (create_submodule_structure never_fails 0 demo_world) = Inr () \<and>
   RunCommand [''make''] (PStr ''support/chopper'') \<in>
     set (emitted (create_submodule_structure never_fails 0) demo_world) \<and>
   populations (emitted (create_submodule_structure never_fails 0) demo_world) =
     [(Template ''4'', EPICS, demo_device)]"
proof -
  note order = make_runs_after_populations [of never_fails 0 demo_world]
  have ioc: "fst (create_ioc_from_template never_fails 0 demo_world) = Inr ()"
    by (simp add: demo_ioc_run)
  have ioc_make: "RunCommand [''make''] (PStr ''ioc/CHOPPER'') \<in>
     set (emitted (create_ioc_from_template never_fails 0) demo_world)"
    by (simp add: emitted_def demo_ioc_run demo_calls ioc_tail_def)
  have str: "fst (create_submodule_structure never_fails 0 demo_world) = Inr ()"
    by (simp add: demo_structure_run)
  have str_make: "RunCommand [''make''] (PStr ''support/chopper'') \<in>
     set (emitted (create_submodule_structure never_fails 0) demo_world)"
    by (simp add: emitted_def demo_structure_run demo_calls)
  have count: "heap demo_world 0 DEVICE_COUNT = Some (PInt 3)"
    by (simp add: demo_world_def demo_device_def)
  from order ioc_make count
  have three: "length (populations (emitted (create_ioc_from_template never_fails 0) demo_world)) = 3"
    by auto
  from order str_make
  have one: "populations (emitted (create_submodule_structure never_fails 0) demo_world) =
     [(Template ''4'', EPICS, heap demo_world 0)]"
    by blast
  from order have after: "populations (calls_after_make
      (emitted (create_ioc_from_template never_fails 0) demo_world)) = []"
    by blast
  from ioc ioc_make three after str str_make one show ?thesis
    by (simp add: demo_heap)
qed

subsection \<open>Template tags and target roots\<close>

lemma create_submodule_tags:
  "set (requested_tags (emitted (create_submodule ext r) w)) \<subseteq> {''3''} \<and>
   set (map (fst \<circ> snd) (populations (emitted (create_submodule ext r) w))) \<subseteq> {EPICS} \<and>
   (fst (create_submodule ext r w) = Inr () \<longrightarrow>
      requested_tags (emitted (create_submodule ext r) w) = [''3''])"
  by (simp add: emitted_def create_submodule_def prog_defs split: option.splits sum.splits prod.splits)

lemma create_submodule_structure_tags:
  "set (requested_tags (emitted (create_submodule_structure ext r) w)) \<subseteq> {''4''} \<and>
   set (map (fst \<circ> snd) (populations (emitted (create_submodule_structure ext r) w))) \<subseteq> {EPICS} \<and>
   (fst (create_submodule_structure ext r w) = Inr () \<longrightarrow>
      requested_tags (emitted (create_submodule_structure ext r) w) = [''4''])"
  by (simp add: emitted_def create_submodule_structure_def prog_defs
      split: option.splits sum.splits prod.splits)

lemma add_test_framework_tags:
  "set (requested_tags (emitted (add_test_framework ext r) w)) \<subseteq> {''6''} \<and>
   set (map (fst \<circ> snd) (populations (emitted (add_test_framework ext r) w))) \<subseteq> {EPICS} \<and>
   (fst (add_test_framework ext r w) = Inr () \<longrightarrow>
      requested_tags (emitted (add_test_framework ext r) w) = [''6''] \<and>
      populations (emitted (add_test_framework ext r) w) = [(Template ''6'', EPICS, heap w r)])"
  by (simp add: emitted_def add_test_framework_def prog_defs split: option.splits sum.splits prod.splits)

lemma add_lewis_emulator_tags:
  "set (requested_tags (emitted (add_lewis_emulator ext r) w)) \<subseteq> {''7''} \<and>
   set (map (fst \<circ> snd) (populations (emitted (add_lewis_emulator ext r) w))) \<subseteq> {EPICS} \<and>
   (fst (add_lewis_emulator ext r w) = Inr () \<longrightarrow>
      requested_tags (emitted (add_lewis_emulator ext r) w) = [''7''] \<and>
      populations (emitted (add_lewis_emulator ext r) w) = [(Template ''7'', EPICS, heap w r)])"
  by (simp add: emitted_def add_lewis_emulator_def prog_defs split: option.splits sum.splits prod.splits)

lemma add_opi_to_gui_tags:
  "set (requested_tags (emitted (add_opi_to_gui ext r) w)) \<subseteq> {''8''} \<and>
   set (map (fst \<circ> snd) (populations (emitted (add_opi_to_gui ext r) w))) \<subseteq> {CLIENT_SRC} \<and>
   (fst (add_opi_to_gui ext r w) = Inr () \<longrightarrow>
      requested_tags (emitted (add_opi_to_gui ext r) w) = [''8''] \<and>
      populations (emitted (add_opi_to_gui ext r) w) = [(Template ''8'', CLIENT_SRC, heap w r)])"
  by (simp add: emitted_def add_opi_to_gui_def prog_defs split: option.splits sum.splits prod.splits)

lemma targets_loop_set:
  "list_all loop_call xs \<Longrightarrow> set (map (fst \<circ> snd) (populations xs)) \<subseteq> {EPICS}"
  using targets_loop [of xs] by auto

lemma tags_loop_mem: "list_all loop_call xs \<Longrightarrow> x \<in> set (requested_tags xs) \<Longrightarrow> x = ''5_2''"
  using tags_loop [of xs] by auto

lemma create_ioc_tags:
  "set (requested_tags (emitted (create_ioc_from_template ext r) w)) \<subseteq> {''5_1'', ''5_2''}"
  using create_ioc_shapes [of ext r w]
  by (auto simp add: requested_tags_append ioc_head_def ioc_tail_def
      dest: tags_loop_mem tags_loop_mem [OF list_all_loop_calls])

lemma create_ioc_targets:
  "set (map (fst \<circ> snd) (populations (emitted (create_ioc_from_template ext r) w))) \<subseteq> {EPICS}"
  using create_ioc_shapes [of ext r w]
  by (auto simp add: populations_append ioc_head_def ioc_tail_def
      dest: targets_loop targets_loop [OF list_all_loop_calls])

lemma create_ioc_tags_returned:
  assumes "fst (create_ioc_from_template ext r w) = Inr ()"
  shows "\<exists>N. heap w r DEVICE_COUNT = Some (PInt N) \<and>
     requested_tags (emitted (create_ioc_from_template ext r) w) = ''5_1'' # map (\<lambda>i. ''5_2'') [2..N]"
  using create_ioc_returns [OF assms]
  by (auto simp add: requested_tags_append requested_tags_loop_calls ioc_head_def ioc_tail_def)

lemma structure_tags_always:
  "requested_tags (emitted (create_submodule_structure ext r) w) = [''4'']"
  by (simp add: emitted_def create_submodule_structure_def prog_defs
      split: option.splits sum.splits prod.splits)

lemma test_framework_tags_always:
  "requested_tags (emitted (add_test_framework ext r) w) = [''6'']"
  by (simp add: emitted_def add_test_framework_def prog_defs split: option.splits sum.splits prod.splits)

lemma lewis_emulator_tags_always:
  "requested_tags (emitted (add_lewis_emulator ext r) w) = [''7'']"
  by (simp add: emitted_def add_lewis_emulator_def prog_defs split: option.splits sum.splits prod.splits)

lemma opi_tags_always:
  "requested_tags (emitted (add_opi_to_gui ext r) w) = [''8'']"
  by (simp add: emitted_def add_opi_to_gui_def prog_defs split: option.splits sum.splits prod.splits)

lemma submodule_tags_cases:
  "requested_tags (emitted (create_submodule ext r) w) = [] \<or>
   requested_tags (emitted (create_submodule ext r) w) = [''3'']"
  by (simp add: emitted_def create_submodule_def prog_defs split: option.splits sum.splits prod.splits)

lemma ioc_tags_always:
  "\<exists>rest. requested_tags (emitted (create_ioc_from_template ext r) w) = ''5_1'' # rest \<and>
     set rest \<subseteq> {''5_2''}"
  using create_ioc_shapes [of ext r w]
  by (auto simp add: requested_tags_append ioc_head_def ioc_tail_def
      dest: tags_loop_mem tags_loop_mem [OF list_all_loop_calls])

text \<open>
  Claim C5. Whatever the collaborators do, \<^verbatim>\<open>create_submodule_structure\<close> requests
  exactly tag 4, \<^verbatim>\<open>add_test_framework\<close> exactly tag 6, \<^verbatim>\<open>add_lewis_emulator\<close> exactly
  tag 7 and \<^verbatim>\<open>add_opi_to_gui\<close> exactly tag 8, each once; \<^verbatim>\<open>create_ioc_from_template\<close>
  requests 5\_1 first and after it only 5\_2; \<^verbatim>\<open>create_submodule\<close> requests nothing
  or tag 3 once, and tag 3 when it returns. The IOC step that returns has requested 5\_1
  once, for the primary app, and then 5\_2 once for each duplicate app 2 to \<open>N\<close>. No
  step requests any other tag.
\<close>

theorem template_tags_of_steps:
  "set (requested_tags (emitted (create_submodule ext device) w)) \<subseteq> {''3''} \<and>
   set (requested_tags (emitted (create_submodule_structure ext device) w)) \<subseteq> {''4''} \<and>
   set (requested_tags (emitted (create_ioc_from_template ext device) w)) \<subseteq> {''5_1'', ''5_2''} \<and>
   set (requested_tags (emitted (add_test_framework ext device) w)) \<subseteq> {''6''} \<and>
   set (requested_tags (emitted (add_lewis_emulator ext device) w)) \<subseteq> {''7''} \<and>
   set (requested_tags (emitted (add_opi_to_gui ext device) w)) \<subseteq> {''8''} \<and>
   (fst (create_submodule ext device w) = Inr () \<longrightarrow>
      requested_tags (emitted (create_submodule ext device) w) = [''3'']) \<and>
   (fst (create_submodule_structure ext device w) = Inr () \<longrightarrow>
      requested_tags (emitted (create_submodule_structure ext device) w) = [''4'']) \<and>
   (fst (create_ioc_from_template ext device w) = Inr () \<longrightarrow>
      (\<exists>N. heap w device DEVICE_COUNT = Some (PInt N) \<and>
         requested_tags (emitted (create_ioc_from_template ext device) w) =
           ''5_1'' # map (\<lambda>i. ''5_2'') [2..N])) \<and>
   (fst (add_test_framework ext device w) = Inr () \<longrightarrow>
      requested_tags (emitted (add_test_framework ext device) w) = [''6'']) \<and>
   (fst (add_lewis_emulator ext device w) = Inr () \<longrightarrow>
      requested_tags (emitted (add_lewis_emulator ext device) w) = [''7'']) \<and>
   (fst (add_opi_to_gui ext device w) = Inr () \<longrightarrow>
      requested_tags (emitted (add_opi_to_gui ext device) w) = [''8'']) \<and>
   (requested_tags (emitted (create_submodule ext device) w) = [] \<or>
    requested_tags (emitted (create_submodule ext device) w) = [''3'']) \<and>
   requested_tags (emitted (create_submodule_structure ext device) w) = [''4''] \<and>
   (\<exists>rest. requested_tags (emitted (create_ioc_from_template ext device) w) = ''5_1'' # rest \<and>
      set rest \<subseteq> {''5_2''}) \<and>
   requested_tags (emitted (add_test_framework ext device) w) = [''6''] \<and>
   requested_tags (emitted (add_lewis_emulator ext device) w) = [''7''] \<and>
   requested_tags (emitted (add_opi_to_gui ext device) w) = [''8'']"
proof -
  have sub: "set (requested_tags (emitted (create_submodule ext device) w)) \<subseteq> {''3''}"
    and sub_ret: "fst (create_submodule ext device w) = Inr () \<longrightarrow>
      requested_tags (emitted (create_submodule ext device) w) = [''3'']"
    using create_submodule_tags [of ext device w] by simp_all
  have ioc_ret: "fst (create_ioc_from_template ext device w) = Inr () \<longrightarrow>
      (\<exists>N. heap w device DEVICE_COUNT = Some (PInt N) \<and>
         requested_tags (emitted (create_ioc_from_template ext device) w) =
           ''5_1'' # map (\<lambda>i. ''5_2'') [2..N])"
    by (intro impI) (rule create_ioc_tags_returned)
  have four: "set (requested_tags (emitted (create_submodule_structure ext device) w)) \<subseteq> {''4''}"
    and six: "set (requested_tags (emitted (add_test_framework ext device) w)) \<subseteq> {''6''}"
    and seven: "set (requested_tags (emitted (add_lewis_emulator ext device) w)) \<subseteq> {''7''}"
    and eight: "set (requested_tags (emitted (add_opi_to_gui ext device) w)) \<subseteq> {''8''}"
    by (simp_all add: structure_tags_always test_framework_tags_always
        lewis_emulator_tags_always opi_tags_always)
  have four_ret: "fst (create_submodule_structure ext device w) = Inr () \<longrightarrow>
      requested_tags (emitted (create_submodule_structure ext device) w) = [''4'']"
    and six_ret: "fst (add_test_framework ext device w) = Inr () \<longrightarrow>
      requested_tags (emitted (add_test_framework ext device) w) = [''6'']"
    and seven_ret: "fst (add_lewis_emulator ext device w) = Inr () \<longrightarrow>
      requested_tags (emitted (add_lewis_emulator ext device) w) = [''7'']"
    and eight_ret: "fst (add_opi_to_gui ext device w) = Inr () \<longrightarrow>
      requested_tags (emitted (add_opi_to_gui ext device) w) = [''8'']"
    by (simp_all add: structure_tags_always test_framework_tags_always
        lewis_emulator_tags_always opi_tags_always)
  from sub four create_ioc_tags [of ext device w] six seven eight
    sub_ret four_ret ioc_ret six_ret seven_ret eight_ret
    submodule_tags_cases [of ext device w] structure_tags_always [of ext device w]
    ioc_tags_always [of ext device w] test_framework_tags_always [of ext device w]
    lewis_emulator_tags_always [of ext device w] opi_tags_always [of ext device w]
  show ?thesis
    by (intro conjI)
qed

lemma demo_opi_run:
  "add_opi_to_gui never_fails 0 demo_world =
     (Inr (), demo_world\<lparr>calls :=
        [GetTemplate ''8'', PopulateTemplateDir (Template ''8'') CLIENT_SRC demo_device,
         AddDeviceOpiToOpiInfo demo_device]\<rparr>)"
  by (simp add: add_opi_to_gui_def prog_defs never_fails_def demo_world_def)

lemma demo_test_framework_run:
  "add_test_framework never_fails 0 demo_world =
     (Inr (), demo_world\<lparr>calls :=
        [GetTemplate ''6'', PopulateTemplateDir (Template ''6'') EPICS demo_device]\<rparr>)"
  by (simp add: add_test_framework_def prog_defs never_fails_def demo_world_def)

lemma demo_lewis_emulator_run:
  "add_lewis_emulator never_fails 0 demo_world =
     (Inr (), demo_world\<lparr>calls :=
        [GetTemplate ''7'', PopulateTemplateDir (Template ''7'') EPICS demo_device]\<rparr>)"
  by (simp add: add_lewis_emulator_def prog_defs never_fails_def demo_world_def)

theorem template_tags_of_steps_witness:
  "fst (create_submodule never_fails 0 demo_world) = Inr () \<and>
   requested_tags (emitted (create_submodule never_fails 0) demo_world) = [''3''] \<and>
   fst (create_ioc_from_template never_fails 0 demo_world) = Inr () \<and>
   requested_tags (emitted (create_ioc_from_template never_fails 0) demo_world) =
     [''5_1'', ''5_2'', ''5_2''] \<and>
   fst (add_opi_to_gui never_fails 0 demo_world) = Inr () \<and>
   requested_tags (emitted (add_opi_to_gui never_fails 0) demo_world) = [''8''] \<and>
   fst (create_submodule_structure never_fails 0 demo_world) = Inr () \<and>
   requested_tags (emitted (create_submodule_structure never_fails 0) demo_world) = [''4''] \<and>
   fst (add_test_framework never_fails 0 demo_world) = Inr () \<and>
   emitted (add_test_framework never_fails 0) demo_world =
     [GetTemplate ''6'', PopulateTemplateDir (Template ''6'') EPICS demo_device] \<and>
   requested_tags (emitted (add_test_framework never_fails 0) demo_world) = [''6''] \<and>
   fst (add_lewis_emulator never_fails 0 demo_world) = Inr () \<and>
   emitted (add_lewis_emulator never_fails 0) demo_world =
     [GetTemplate ''7'', PopulateTemplateDir (Template ''7'') EPICS demo_device] \<and>
   requested_tags (emitted (add_lewis_emulator never_fails 0) demo_world) = [''7'']"
proof -
  note tags = template_tags_of_steps [of never_fails 0 demo_world]
  have sub: "fst (create_submodule never_fails 0 demo_world) = Inr ()"
    by (simp add: demo_submodule_run)
  have ioc: "fst (create_ioc_from_template never_fails 0 demo_world) = Inr ()"
    by (simp add: demo_ioc_run)
  have opi: "fst (add_opi_to_gui never_fails 0 demo_world) = Inr ()"
    by (simp add: demo_opi_run)
  have str: "fst (create_submodule_structure never_fails 0 demo_world) = Inr ()"
    by (simp add: demo_structure_run)
  have test: "fst (add_test_framework never_fails 0 demo_world) = Inr ()"
    and test_calls: "emitted (add_test_framework never_fails 0) demo_world =
     [GetTemplate ''6'', PopulateTemplateDir (Template ''6'') EPICS demo_device]"
    by (simp_all add: emitted_def demo_test_framework_run demo_calls)
  have lewis: "fst (add_lewis_emulator never_fails 0 demo_world) = Inr ()"
    and lewis_calls: "emitted (add_lewis_emulator never_fails 0) demo_world =
     [GetTemplate ''7'', PopulateTemplateDir (Template ''7'') EPICS demo_device]"
    by (simp_all add: emitted_def demo_lewis_emulator_run demo_calls)
  have count: "heap demo_world 0 DEVICE_COUNT = Some (PInt 3)"
    by (simp add: demo_world_def demo_device_def)
  from tags sub have t3: "requested_tags (emitted (create_submodule never_fails 0) demo_world) = [''3'']"
    by simp
  from tags ioc count
  have t5: "requested_tags (emitted (create_ioc_from_template never_fails 0) demo_world) =
     [''5_1'', ''5_2'', ''5_2'']"
    by simp
  from tags have t8: "requested_tags (emitted (add_opi_to_gui never_fails 0) demo_world) = [''8'']"
    and t4: "requested_tags (emitted (create_submodule_structure never_fails 0) demo_world) = [''4'']"
    and t6: "requested_tags (emitted (add_test_framework never_fails 0) demo_world) = [''6'']"
    and t7: "requested_tags (emitted (add_lewis_emulator never_fails 0) demo_world) = [''7'']"
    by simp_all
  from sub t3 ioc t5 opi t8 str t4 test test_calls t6 lewis lewis_calls t7 show ?thesis
    by (intro conjI)
qed

text \<open>
  Claim C10. Whatever the collaborators do, every template population of
  \<^verbatim>\<open>add_opi_to_gui\<close> targets \<open>CLIENT_SRC\<close>, and every template population of the other
  five step functions targets \<open>EPICS\<close>. When \<^verbatim>\<open>add_opi_to_gui\<close> returns it has made one
  population, of template 8 into \<open>CLIENT_SRC\<close>.
\<close>

theorem population_targets:
  "(\<forall>step \<in> set [create_submodule, create_submodule_structure, create_ioc_from_template,
        add_test_framework, add_lewis_emulator].
      set (map (fst \<circ> snd) (populations (emitted (step ext device) w))) \<subseteq> {EPICS}) \<and>
   set (map (fst \<circ> snd) (populations (emitted (add_opi_to_gui ext device) w))) \<subseteq> {CLIENT_SRC} \<and>
   (fst (add_opi_to_gui ext device w) = Inr () \<longrightarrow>
      populations (emitted (add_opi_to_gui ext device) w) =
        [(Template ''8'', CLIENT_SRC, heap w device)])"
  using create_submodule_tags [of ext device w] create_submodule_structure_tags [of ext device w]
    create_ioc_targets [of ext device w]
    add_test_framework_tags [of ext device w] add_lewis_emulator_tags [of ext device w]
    add_opi_to_gui_tags [of ext device w]
  by simp

theorem population_targets_witness:
  "fst (add_opi_to_gui never_fails 0 demo_world) = Inr () \<and>
   populations (emitted (add_opi_to_gui never_fails 0) demo_world) =
     [(Template ''8'', CLIENT_SRC, demo_device)] \<and>
   map (fst \<circ> snd) (populations (emitted (create_ioc_from_template never_fails 0) demo_world)) =
     [EPICS, EPICS, EPICS] \<and>
   set (map (fst \<circ> snd) (populations (emitted (create_ioc_from_template never_fails 0) demo_world)))
     \<subseteq> {EPICS}"
proof -
  note targets = population_targets [of never_fails 0 demo_world]
  have opi: "fst (add_opi_to_gui never_fails 0 demo_world) = Inr ()"
    by (simp add: demo_opi_run)
  from targets opi
  have gui: "populations (emitted (add_opi_to_gui never_fails 0) demo_world) =
     [(Template ''8'', CLIENT_SRC, heap demo_world 0)]"
    by blast
  from targets
  have epics: "set (map (fst \<circ> snd)
      (populations (emitted (create_ioc_from_template never_fails 0) demo_world))) \<subseteq> {EPICS}"
    by simp
  have three: "map (fst \<circ> snd)
      (populations (emitted (create_ioc_from_template never_fails 0) demo_world)) = [EPICS, EPICS, EPICS]"
    by (simp add: emitted_def demo_ioc_run demo_calls ioc_head_def ioc_tail_def loop_calls_def)
  from opi gui epics three show ?thesis
    by (simp add: demo_heap)
qed

subsection \<open>The index after the IOC step\<close>

lemma last_upto_from_2: "2 \<le> N \<Longrightarrow> last [2..N] = N"
  by (simp add: upto_rec2 [of 2 N])

lemma create_ioc_index:
  assumes count: "heap w r DEVICE_COUNT = Some (PInt N)" and two: "2 \<le> N"
    and ret: "fst (create_ioc_from_template ext r w) = Inr ()"
  shows "heap (snd (create_ioc_from_template ext r w)) r INDEX = Some (PStr (format_02d N))"
proof -
  let ?G = "GetTemplate ''5_1''"
  let ?P = "PopulateTemplateDir (Template ''5_1'') EPICS (heap w r)"
  let ?w2 = "w\<lparr>calls := calls w @ [?G, ?P]\<rparr>"
  let ?loop = "ioc_loop ext r [2..N] ?w2"
  let ?rest = "\<lambda>_::unit.
            bind_prog (getitem r IOC_NAME) (\<lambda>entry.
            bind_prog (add_to_makefile_list ext IOC_ROOT ''IOCDIRS'' entry) (\<lambda>_.
            bind_prog (getitem r IOC_PATH) (\<lambda>cwd.
            run_command ext [''make''] cwd)))"
  from ret have ok: "\<not> ext (calls w) ?G" "\<not> ext (calls w @ [?G]) ?P"
    by (auto simp add: create_ioc_from_template_def prog_defs split: if_splits)
  have eq: "create_ioc_from_template ext r w = bind_prog (ioc_loop ext r [2..N]) ?rest ?w2"
    using ok count
    by (simp add: create_ioc_from_template_def py_range_def bind_prog_def get_template_def
        populate_template_dir_def external_def getitem_def plus_one_def)
  from ret have loop_ret: "fst ?loop = Inr ()"
    unfolding eq by (simp add: bind_prog_alt split: sum.splits)
  have same: "heap (snd (?rest () (snd ?loop))) = heap (snd ?loop)"
    by (simp add: prog_defs split: option.splits sum.splits prod.splits)
  have "heap (snd (create_ioc_from_template ext r w)) = heap (snd ?loop)"
    unfolding eq using loop_ret same by (simp add: bind_prog_alt)
  moreover have "heap (snd ?loop) r INDEX = Some (PStr (format_02d (last [2..N])))"
    using loop_ret two by (intro ioc_loop_returns_index) simp_all
  ultimately show ?thesis
    using two by (simp add: last_upto_from_2)
qed

text \<open>
  Claim C9. Let the device count be \<open>N \<ge> 2\<close> and let \<^verbatim>\<open>create_ioc_from_template\<close>
  return. The loop wrote through \<open>subs\<close>, which holds the same address as \<open>device\<close>,
  so the shared record then maps \<open>INDEX\<close> to \<^verbatim>\<open>"{:02d}".format(N)\<close>. Each of the later
  steps (\<^verbatim>\<open>add_test_framework\<close>, \<^verbatim>\<open>add_lewis_emulator\<close>, \<^verbatim>\<open>add_opi_to_gui\<close>), run on that
  record in any later world and with any behaviour of the collaborators, hands this
  index to every template population it makes and leaves it in place.
\<close>

theorem index_stays_after_ioc_step:
  assumes count: "heap w device DEVICE_COUNT = Some (PInt N)" and two: "2 \<le> N"
    and ret: "fst (create_ioc_from_template ext device w) = Inr ()"
  shows "heap (snd (create_ioc_from_template ext device w)) device INDEX = Some (PStr (format_02d N)) \<and>
    (\<forall>later \<in> set [add_test_framework, add_lewis_emulator, add_opi_to_gui]. \<forall>ext' w'.
       heap w' device = heap (snd (create_ioc_from_template ext device w)) device \<longrightarrow>
         heap (snd (later ext' device w')) device INDEX = Some (PStr (format_02d N)) \<and>
         (\<forall>p \<in> set (populations (emitted (later ext' device) w')).
            snd (snd p) INDEX = Some (PStr (format_02d N))))"
proof -
  let ?after = "heap (snd (create_ioc_from_template ext device w)) device"
  have index: "?after INDEX = Some (PStr (format_02d N))"
    using count two ret by (rule create_ioc_index)
  have test: "heap (snd (add_test_framework ext' device w')) device INDEX = Some (PStr (format_02d N)) \<and>
         (\<forall>p \<in> set (populations (emitted (add_test_framework ext' device) w')).
            snd (snd p) INDEX = Some (PStr (format_02d N)))"
    if "heap w' device = ?after" for ext' w'
    using that index
    by (simp add: emitted_def add_test_framework_def prog_defs
        split: option.splits sum.splits prod.splits)
  have lewis: "heap (snd (add_lewis_emulator ext' device w')) device INDEX = Some (PStr (format_02d N)) \<and>
         (\<forall>p \<in> set (populations (emitted (add_lewis_emulator ext' device) w')).
            snd (snd p) INDEX = Some (PStr (format_02d N)))"
    if "heap w' device = ?after" for ext' w'
    using that index
    by (simp add: emitted_def add_lewis_emulator_def prog_defs
        split: option.splits sum.splits prod.splits)
  have opi: "heap (snd (add_opi_to_gui ext' device w')) device INDEX = Some (PStr (format_02d N)) \<and>
         (\<forall>p \<in> set (populations (emitted (add_opi_to_gui ext' device) w')).
            snd (snd p) INDEX = Some (PStr (format_02d N)))"
    if "heap w' device = ?after" for ext' w'
    using that index
    by (simp add: emitted_def add_opi_to_gui_def prog_defs
        split: option.splits sum.splits prod.splits)
  from index test lewis opi show ?thesis
    by simp
qed

theorem index_stays_after_ioc_step_witness:
  "heap demo_world 0 DEVICE_COUNT = Some (PInt 3) \<and> (2::int) \<le> 3 \<and>
   fst (create_ioc_from_template never_fails 0 demo_world) = Inr () \<and>
   heap demo_world 0 INDEX = None \<and>
   heap (snd (create_ioc_from_template never_fails 0 demo_world)) 0 INDEX = Some (PStr ''03'') \<and>
   heap (snd (add_test_framework never_fails 0 (snd (create_ioc_from_template never_fails 0 demo_world))))
     0 INDEX = Some (PStr ''03'') \<and>
   heap (snd (add_opi_to_gui never_fails 0 (snd (create_ioc_from_template never_fails 0 demo_world))))
     0 INDEX = Some (PStr ''03'')"
proof -
  have count: "heap demo_world 0 DEVICE_COUNT = Some (PInt 3)"
    by (simp add: demo_world_def demo_device_def)
  have two: "(2::int) \<le> 3"
    by simp
  have ret: "fst (create_ioc_from_template never_fails 0 demo_world) = Inr ()"
    by (simp add: demo_ioc_run)
  have before: "heap demo_world 0 INDEX = None"
    by (simp add: demo_world_def demo_device_def)
  note stays = index_stays_after_ioc_step [OF count two ret]
  let ?w1 = "snd (create_ioc_from_template never_fails 0 demo_world)"
  from stays have i1: "heap ?w1 0 INDEX = Some (PStr (format_02d 3))"
    by blast
  from stays have "heap ?w1 0 = heap ?w1 0 \<longrightarrow>
      heap (snd (add_test_framework never_fails 0 ?w1)) 0 INDEX = Some (PStr (format_02d 3))"
    by simp
  then have i2: "heap (snd (add_test_framework never_fails 0 ?w1)) 0 INDEX = Some (PStr (format_02d 3))"
    by simp
  from stays have "heap ?w1 0 = heap ?w1 0 \<longrightarrow>
      heap (snd (add_opi_to_gui never_fails 0 ?w1)) 0 INDEX = Some (PStr (format_02d 3))"
    by simp
  then have i3: "heap (snd (add_opi_to_gui never_fails 0 ?w1)) 0 INDEX = Some (PStr (format_02d 3))"
    by simp
  from count ret before i1 i2 i3 show ?thesis
    by (simp add: demo_format)
qed

section \<open>Properties of the argument parser\<close>

subsection \<open>What a successful parse tells\<close>

lemma parse_args_lookup:
  "parse_args args cl = Inr ns \<Longrightarrow> distinct (map dest_of args) \<Longrightarrow> a \<in> set args \<Longrightarrow>
     \<exists>v. parse_argument cl a = Inr v \<and> ns (dest_of a) = Some v"
proof (induction args arbitrary: ns)
  case Nil
  then show ?case by simp
next
  case (Cons b rest)
  from Cons.prems(1) obtain v ns' where
    b: "parse_argument cl b = Inr v" and rest: "parse_args rest cl = Inr ns'"
    and ns: "ns = ns'(dest_of b \<mapsto> v)"
    by (auto split: sum.splits)
  show ?case
  proof (cases "a = b")
    case True
    with b ns show ?thesis by simp
  next
    case False
    with Cons.prems(3) have mem: "a \<in> set rest" by simp
    from Cons.prems(2) have dist: "distinct (map dest_of rest)" by simp
    from Cons.IH [OF rest dist mem] obtain va where
      va: "parse_argument cl a = Inr va" "ns' (dest_of a) = Some va"
      by blast
    from Cons.prems(2) have "dest_of b \<notin> dest_of ` set rest" by simp
    with mem have "dest_of a \<noteq> dest_of b" by (metis imageI)
    with va ns show ?thesis by simp
  qed
qed

lemma parser_dests:
  "map dest_of (parser H) = [''ioc_name'', ''ticket'', ''device_name'', ''device_count'',
     ''use_git'', ''github_token'', ''log_level'', ''interactive'']"
  by (simp add: parser_def dest_of_def strip_dashes_def)

lemma parser_lookup:
  assumes "parse_args (parser H) cl = Inr ns" and "i < 8"
  shows "\<exists>v. parse_argument cl (parser H ! i) = Inr v \<and> ns (map dest_of (parser H) ! i) = Some v"
proof -
  have len: "length (parser H) = 8"
    by (simp add: parser_def)
  with assms(2) have mem: "parser H ! i \<in> set (parser H)"
    by simp
  have "distinct (map dest_of (parser H))"
    by (simp add: parser_dests)
  from parse_args_lookup [OF assms(1) this mem] assms(2) len show ?thesis
    by simp
qed

lemma parsed_ioc_name:
  assumes "parse_args (parser H) cl = Inr ns"
  shows "\<exists>s. map_of (given cl) ''ioc_name'' = Some s \<and> is_valid_ioc_name H s \<and>
     ns ''ioc_name'' = Some (VStr s)"
  using parser_lookup [OF assms, of 0]
  by (auto simp add: parser_dests parser_def parse_argument_def dest_of_def strip_dashes_def
      get_value_def check_value_def is_optional_def returning_str_def ioc_name_checker_def
      split: option.splits sum.splits if_splits)

lemma parsed_ticket:
  assumes "parse_args (parser H) cl = Inr ns"
  shows "\<exists>s n. map_of (given cl) ''ticket'' = Some s \<and> int_of_str H s = Some n \<and>
     does_github_issue_exist_and_is_open H n \<and> ns ''ticket'' = Some (VInt n)"
  using parser_lookup [OF assms, of 1]
  by (auto simp add: parser_dests parser_def parse_argument_def dest_of_def strip_dashes_def
      get_value_def check_value_def is_optional_def returning_int_def ticket_number_checker_def
      split: option.splits sum.splits if_splits)

lemma parsed_device_name:
  assumes "parse_args (parser H) cl = Inr ns"
  shows "(map_of (given cl) ''device_name'' = None \<and> ns ''device_name'' = Some VNone) \<or>
     (\<exists>s. map_of (given cl) ''device_name'' = Some s \<and> is_valid_device_name H s \<and>
        ns ''device_name'' = Some (VStr s))"
  using parser_lookup [OF assms, of 2]
  by (auto simp add: parser_dests parser_def parse_argument_def dest_of_def strip_dashes_def
      get_value_def check_value_def is_optional_def default_value_def returning_str_def
      device_name_checker_def
      split: option.splits sum.splits if_splits)

lemma parsed_device_count:
  assumes "parse_args (parser H) cl = Inr ns"
  shows "(map_of (given cl) ''device_count'' = None \<and> ns ''device_count'' = Some (VInt 1)) \<or>
     (\<exists>s n. map_of (given cl) ''device_count'' = Some s \<and> int_of_str H s = Some n \<and>
        is_valid_device_count H n \<and> ns ''device_count'' = Some (VInt n))"
  using parser_lookup [OF assms, of 3]
  by (auto simp add: parser_dests parser_def parse_argument_def dest_of_def strip_dashes_def
      get_value_def check_value_def is_optional_def default_value_def returning_int_def
      device_count_checker_def default_device_count_def
      split: option.splits sum.splits if_splits)


text \<open>What \<^verbatim>\<open>parse_arguments\<close> returns, in terms of what \<^verbatim>\<open>parse_args\<close> returned.\<close>

lemma parse_arguments_Inr:
  assumes "parse_arguments H cl = Inr ns"
  shows "\<exists>args. parse_args (parser H) cl = Inr args \<and>
     (\<forall>k. k \<noteq> ''device_name'' \<longrightarrow> ns k = args k) \<and>
     (\<exists>dn. args ''device_name'' = Some dn \<and>
        ns ''device_name'' = (if truthy dn then Some dn else args ''ioc_name''))"
  using assms
  by (auto simp add: parse_arguments_def split: sum.splits option.splits if_splits)

text \<open>The example command line, evaluated: the device name was not given.\<close>

lemma demo_parse:
  "parse_arguments demo_helpers demo_command_line =
     Inr [''interactive'' \<mapsto> VBool False, ''log_level'' \<mapsto> VStr ''INFO'',
          ''github_token'' \<mapsto> VNone, ''use_git'' \<mapsto> VBool False,
          ''device_count'' \<mapsto> VInt 1, ''device_name'' \<mapsto> VStr ''CHOPPER'',
          ''ticket'' \<mapsto> VInt 1234, ''ioc_name'' \<mapsto> VStr ''CHOPPER'']"
  by (simp add: parse_arguments_def parser_def parse_argument_def dest_of_def strip_dashes_def
      get_value_def check_value_def is_optional_def default_value_def str_def
      returning_str_def returning_int_def ioc_name_checker_def ticket_number_checker_def
      default_device_count_def truthy_def demo_helpers_def demo_command_line_def fun_upd_twist)

subsection \<open>The checkers\<close>

text \<open>
  Claim C6. \<^verbatim>\<open>ioc_name_checker\<close> raises \<^verbatim>\<open>ArgumentTypeError\<close> exactly when
  \<^verbatim>\<open>is_valid_ioc_name\<close> is false, and \<^verbatim>\<open>device_name_checker\<close> exactly when
  \<^verbatim>\<open>is_valid_device_name\<close> is false; otherwise each returns its input. Where \<^verbatim>\<open>int(val)\<close>
  is \<open>n\<close>, \<^verbatim>\<open>device_count_checker\<close> raises \<^verbatim>\<open>ArgumentTypeError\<close> exactly when
  \<^verbatim>\<open>is_valid_device_count(n)\<close> is false and \<^verbatim>\<open>ticket_number_checker\<close> exactly when the
  issue \<open>n\<close> does not exist or is not open; otherwise each returns \<open>n\<close>. Where
  \<^verbatim>\<open>int(val)\<close> raises, both raise \<^verbatim>\<open>ValueError\<close>. So a parse that succeeds was given a
  valid IOC name and an open ticket, and only valid values for the device name and the
  device count: any validation failure makes parsing fail.
\<close>

theorem checkers_reject_exactly_invalid:
  "((\<exists>m. ioc_name_checker H s = Inl (ArgumentTypeError m)) \<longleftrightarrow> \<not> is_valid_ioc_name H s) \<and>
   (is_valid_ioc_name H s \<longrightarrow> ioc_name_checker H s = Inr s) \<and>
   ((\<exists>m. device_name_checker H s = Inl (ArgumentTypeError m)) \<longleftrightarrow> \<not> is_valid_device_name H s) \<and>
   (is_valid_device_name H s \<longrightarrow> device_name_checker H s = Inr s) \<and>
   (\<forall>n. int_of_str H s = Some n \<longrightarrow>
      ((\<exists>m. device_count_checker H s = Inl (ArgumentTypeError m)) \<longleftrightarrow> \<not> is_valid_device_count H n) \<and>
      (is_valid_device_count H n \<longrightarrow> device_count_checker H s = Inr n) \<and>
      ((\<exists>m. ticket_number_checker H s = Inl (ArgumentTypeError m)) \<longleftrightarrow>
         \<not> does_github_issue_exist_and_is_open H n) \<and>
      (does_github_issue_exist_and_is_open H n \<longrightarrow> ticket_number_checker H s = Inr n)) \<and>
   (int_of_str H s = None \<longrightarrow>
      device_count_checker H s = Inl ValueError \<and> ticket_number_checker H s = Inl ValueError) \<and>
   (\<forall>ns. parse_arguments H cl = Inr ns \<longrightarrow>
      (\<exists>name. map_of (given cl) ''ioc_name'' = Some name \<and> is_valid_ioc_name H name) \<and>
      (\<exists>val n. map_of (given cl) ''ticket'' = Some val \<and> int_of_str H val = Some n \<and>
         does_github_issue_exist_and_is_open H n) \<and>
      (\<forall>name. map_of (given cl) ''device_name'' = Some name \<longrightarrow> is_valid_device_name H name) \<and>
      (\<forall>val. map_of (given cl) ''device_count'' = Some val \<longrightarrow>
         (\<exists>n. int_of_str H val = Some n \<and> is_valid_device_count H n)))"
proof -
  have names:
    "((\<exists>m. ioc_name_checker H s = Inl (ArgumentTypeError m)) \<longleftrightarrow> \<not> is_valid_ioc_name H s) \<and>
     (is_valid_ioc_name H s \<longrightarrow> ioc_name_checker H s = Inr s) \<and>
     ((\<exists>m. device_name_checker H s = Inl (ArgumentTypeError m)) \<longleftrightarrow> \<not> is_valid_device_name H s) \<and>
     (is_valid_device_name H s \<longrightarrow> device_name_checker H s = Inr s)"
    by (simp add: ioc_name_checker_def device_name_checker_def)
  have numbers: "\<forall>n. int_of_str H s = Some n \<longrightarrow>
      ((\<exists>m. device_count_checker H s = Inl (ArgumentTypeError m)) \<longleftrightarrow> \<not> is_valid_device_count H n) \<and>
      (is_valid_device_count H n \<longrightarrow> device_count_checker H s = Inr n) \<and>
      ((\<exists>m. ticket_number_checker H s = Inl (ArgumentTypeError m)) \<longleftrightarrow>
         \<not> does_github_issue_exist_and_is_open H n) \<and>
      (does_github_issue_exist_and_is_open H n \<longrightarrow> ticket_number_checker H s = Inr n)"
    by (simp add: device_count_checker_def ticket_number_checker_def)
  have no_int: "int_of_str H s = None \<longrightarrow>
      device_count_checker H s = Inl ValueError \<and> ticket_number_checker H s = Inl ValueError"
    by (simp add: device_count_checker_def ticket_number_checker_def)
  have parse: "(\<exists>name. map_of (given cl) ''ioc_name'' = Some name \<and> is_valid_ioc_name H name) \<and>
      (\<exists>val n. map_of (given cl) ''ticket'' = Some val \<and> int_of_str H val = Some n \<and>
         does_github_issue_exist_and_is_open H n) \<and>
      (\<forall>name. map_of (given cl) ''device_name'' = Some name \<longrightarrow> is_valid_device_name H name) \<and>
      (\<forall>val. map_of (given cl) ''device_count'' = Some val \<longrightarrow>
         (\<exists>n. int_of_str H val = Some n \<and> is_valid_device_count H n))"
    if "parse_arguments H cl = Inr ns" for ns
  proof -
    from parse_arguments_Inr [OF that] obtain args where
      args: "parse_args (parser H) cl = Inr args"
      by blast
    from parsed_ioc_name [OF args] parsed_ticket [OF args] parsed_device_name [OF args]
      parsed_device_count [OF args]
    show ?thesis
      by auto
  qed
  from names numbers no_int parse show ?thesis
    by blast
qed

theorem checkers_reject_exactly_invalid_witness:
  "is_valid_ioc_name demo_helpers ''CHOPPER'' \<and>
   ioc_name_checker demo_helpers ''CHOPPER'' = Inr ''CHOPPER'' \<and>
   int_of_str demo_helpers ''0'' = Some 0 \<and> \<not> is_valid_device_count demo_helpers 0 \<and>
   (\<exists>m. device_count_checker demo_helpers ''0'' = Inl (ArgumentTypeError m)) \<and>
   int_of_str demo_helpers ''1234'' = Some 1234 \<and>
   ticket_number_checker demo_helpers ''1234'' = Inr 1234 \<and>
   map_of (given demo_bad_count) ''device_count'' = Some ''0'' \<and>
   (\<exists>e. parse_arguments demo_helpers demo_bad_count = Inl e)"
proof -
  have valid: "is_valid_ioc_name demo_helpers ''CHOPPER''"
    by (simp add: demo_helpers_def)
  have zero: "int_of_str demo_helpers ''0'' = Some 0" "\<not> is_valid_device_count demo_helpers 0"
    by (simp_all add: demo_helpers_def)
  have ticket: "int_of_str demo_helpers ''1234'' = Some 1234"
    "does_github_issue_exist_and_is_open demo_helpers 1234"
    by (simp_all add: demo_helpers_def)
  have count: "map_of (given demo_bad_count) ''device_count'' = Some ''0''"
    by (simp add: demo_bad_count_def)
  from checkers_reject_exactly_invalid [of demo_helpers "''CHOPPER''" demo_bad_count] valid
  have c1: "ioc_name_checker demo_helpers ''CHOPPER'' = Inr ''CHOPPER''"
    by blast
  from checkers_reject_exactly_invalid [of demo_helpers "''0''" demo_bad_count] zero
  have c2: "\<exists>m. device_count_checker demo_helpers ''0'' = Inl (ArgumentTypeError m)"
    by blast
  from checkers_reject_exactly_invalid [of demo_helpers "''1234''" demo_bad_count] ticket
  have c3: "ticket_number_checker demo_helpers ''1234'' = Inr 1234"
    by blast
  have c4: "\<exists>e. parse_arguments demo_helpers demo_bad_count = Inl e"
  proof (cases "parse_arguments demo_helpers demo_bad_count")
    case (Inl e)
    then show ?thesis by blast
  next
    case (Inr ns)
    with checkers_reject_exactly_invalid [of demo_helpers "''0''" demo_bad_count] count
    obtain n where "int_of_str demo_helpers ''0'' = Some n" "is_valid_device_count demo_helpers n"
      by blast
    with zero show ?thesis by simp
  qed
  from valid zero ticket count c1 c2 c3 c4 show ?thesis
    by simp
qed

subsection \<open>The command line interface\<close>













subsection \<open>The device name falls back to the IOC name\<close>

text \<open>
  Claim C8. After a successful parse: when \<open>--device_name\<close> was not given, or was given
  as the empty string, the namespace holds the IOC name as device name; when it was given
  non-empty, the namespace holds it. Provided \<^verbatim>\<open>is_valid_ioc_name\<close> rejects the empty
  string (section 4.1 of the specification: names are validated as non-empty), the device
  name of the namespace is a non-empty string.
\<close>

theorem device_name_defaults_to_ioc_name:
  assumes "parse_arguments H cl = Inr ns"
  shows "(map_of (given cl) ''device_name'' = None \<or> map_of (given cl) ''device_name'' = Some [] \<longrightarrow>
            ns ''device_name'' = ns ''ioc_name'') \<and>
         (\<forall>s. map_of (given cl) ''device_name'' = Some s \<and> s \<noteq> [] \<longrightarrow>
            ns ''device_name'' = Some (VStr s)) \<and>
         (\<exists>name. map_of (given cl) ''ioc_name'' = Some name \<and> is_valid_ioc_name H name \<and>
            ns ''ioc_name'' = Some (VStr name)) \<and>
         (\<not> is_valid_ioc_name H [] \<longrightarrow> (\<exists>s. ns ''device_name'' = Some (VStr s) \<and> s \<noteq> []))"
proof -
  from parse_arguments_Inr [OF assms] obtain args dn where
    args: "parse_args (parser H) cl = Inr args" and
    other: "\<forall>k. k \<noteq> ''device_name'' \<longrightarrow> ns k = args k" and
    dn: "args ''device_name'' = Some dn" and
    res: "ns ''device_name'' = (if truthy dn then Some dn else args ''ioc_name'')"
    by (elim exE conjE)
  have ioc: "ns ''ioc_name'' = args ''ioc_name''"
    using other by simp
  from parsed_ioc_name [OF args] obtain name where
    name: "map_of (given cl) ''ioc_name'' = Some name" "is_valid_ioc_name H name"
      "args ''ioc_name'' = Some (VStr name)"
    by (elim exE conjE)
  have third: "\<exists>name. map_of (given cl) ''ioc_name'' = Some name \<and> is_valid_ioc_name H name \<and>
            ns ''ioc_name'' = Some (VStr name)"
    using name unfolding ioc by (intro exI [of _ name] conjI)
  have nonempty: "name \<noteq> []" if "\<not> is_valid_ioc_name H []"
    using that name(2) by (cases "name = []") simp_all
  from parsed_device_name [OF args] show ?thesis
  proof (elim disjE exE conjE)
    assume none: "map_of (given cl) ''device_name'' = None" and "args ''device_name'' = Some VNone"
    with dn have "dn = VNone" by simp
    with res have fallback: "ns ''device_name'' = args ''ioc_name''"
      by (simp add: truthy_def)
    have first: "map_of (given cl) ''device_name'' = None \<or> map_of (given cl) ''device_name'' = Some [] \<longrightarrow>
            ns ''device_name'' = ns ''ioc_name''"
      unfolding fallback ioc by simp
    have second: "\<forall>s. map_of (given cl) ''device_name'' = Some s \<and> s \<noteq> [] \<longrightarrow>
            ns ''device_name'' = Some (VStr s)"
      unfolding none by simp
    have fourth: "\<not> is_valid_ioc_name H [] \<longrightarrow> (\<exists>s. ns ''device_name'' = Some (VStr s) \<and> s \<noteq> [])"
      unfolding fallback name(3) using nonempty by simp
    from first second third fourth show ?thesis
      by (intro conjI)
  next
    fix s
    assume some: "map_of (given cl) ''device_name'' = Some s" and "args ''device_name'' = Some (VStr s)"
    with dn have dn_s: "dn = VStr s" by simp
    show ?thesis
    proof (cases "s = []")
      case True
      with res dn_s have fallback: "ns ''device_name'' = args ''ioc_name''"
        by (simp add: truthy_def)
      have first: "map_of (given cl) ''device_name'' = None \<or> map_of (given cl) ''device_name'' = Some [] \<longrightarrow>
            ns ''device_name'' = ns ''ioc_name''"
        unfolding fallback ioc by simp
      have second: "\<forall>s. map_of (given cl) ''device_name'' = Some s \<and> s \<noteq> [] \<longrightarrow>
            ns ''device_name'' = Some (VStr s)"
        unfolding some using True by simp
      have fourth: "\<not> is_valid_ioc_name H [] \<longrightarrow> (\<exists>s. ns ''device_name'' = Some (VStr s) \<and> s \<noteq> [])"
        unfolding fallback name(3) using nonempty by simp
      from first second third fourth show ?thesis
        by (intro conjI)
    next
      case False
      with res dn_s have kept: "ns ''device_name'' = Some (VStr s)"
        by (simp add: truthy_def)
      have first: "map_of (given cl) ''device_name'' = None \<or> map_of (given cl) ''device_name'' = Some [] \<longrightarrow>
            ns ''device_name'' = ns ''ioc_name''"
        unfolding some using False by simp
      have second: "\<forall>s. map_of (given cl) ''device_name'' = Some s \<and> s \<noteq> [] \<longrightarrow>
            ns ''device_name'' = Some (VStr s)"
        unfolding some kept by simp
      have fourth: "\<not> is_valid_ioc_name H [] \<longrightarrow> (\<exists>s. ns ''device_name'' = Some (VStr s) \<and> s \<noteq> [])"
        unfolding kept using False by simp
      from first second third fourth show ?thesis
        by (intro conjI)
    qed
  qed
qed

theorem device_name_defaults_to_ioc_name_witness:
  "(\<exists>ns. parse_arguments demo_helpers demo_command_line = Inr ns \<and>
      ns ''device_name'' = Some (VStr ''CHOPPER'') \<and> ns ''ioc_name'' = Some (VStr ''CHOPPER'')) \<and>
   map_of (given demo_command_line) ''device_name'' = None \<and>
   \<not> is_valid_ioc_name demo_helpers []"
proof -
  have absent: "map_of (given demo_command_line) ''device_name'' = None"
    and name: "map_of (given demo_command_line) ''ioc_name'' = Some ''CHOPPER''"
    by (simp_all add: demo_command_line_def)
  have empty: "\<not> is_valid_ioc_name demo_helpers []"
    by (simp add: demo_helpers_def)
  from demo_parse obtain ns where ns: "parse_arguments demo_helpers demo_command_line = Inr ns"
    by (rule that)
  note fallback = device_name_defaults_to_ioc_name [OF ns]
  from fallback absent have same: "ns ''device_name'' = ns ''ioc_name''"
    by simp
  from fallback name have ioc: "ns ''ioc_name'' = Some (VStr ''CHOPPER'')"
    by simp
  from same ioc have dev: "ns ''device_name'' = Some (VStr ''CHOPPER'')"
    by simp
  have "\<exists>ns. parse_arguments demo_helpers demo_command_line = Inr ns \<and>
      ns ''device_name'' = Some (VStr ''CHOPPER'') \<and> ns ''ioc_name'' = Some (VStr ''CHOPPER'')"
    using ns dev ioc by (intro exI [of _ ns] conjI)
  from this absent empty show ?thesis
    by (intro conjI)
qed

end
